theory Spec2Isabelle
  imports Main
begin

section \<open>Data model (src/context/ReservationContext.tsx, lines 8-17)\<close>

text \<open>
  The interface \<open>Reservation\<close> has the fields \<open>id\<close>, \<open>portal\<close>, \<open>floor\<close>, \<open>door\<close>,
  \<open>date\<close>, \<open>status\<close>, \<open>createdAt\<close> and \<open>userId\<close>. The argument of \<open>createReservation\<close>
  has type \<open>Omit<Reservation, 'id' | 'createdAt' | 'userId'>\<close>: the record
  \<open>ReservationData\<close>, which \<open>Reservation\<close> extends by the three omitted fields.
  The fields \<open>id\<close> and \<open>floor\<close> carry a suffix, since HOL has constants of these names.
  The type of \<open>status\<close> is the one-element literal type \<open>'confirmed'\<close>; \<open>createdAt\<close> (a
  Firestore timestamp) is a natural number.

  JavaScript strings are values of a type \<open>'s\<close> that is left open: the code compares
  them with \<open>===\<close> (equality of \<open>'s\<close>) and hands them to \<open>parseISO\<close> and
  \<open>toUpperCase\<close>, which are parameters (section 2). The examples take \<open>'s\<close> to be the
  ASCII strings.
\<close>

datatype status = Confirmed

record 's ReservationData =
  portal :: 's
  floor_r :: 's
  door :: 's
  date :: 's
  status :: status

record 's Reservation = "'s ReservationData" +
  id_r :: 's
  createdAt :: nat
  userId :: 's


section \<open>The platform and library functions the reservation code calls\<close>

subsection \<open>JavaScript dates\<close>

text \<open>
  A JavaScript \<open>Date\<close> is its time value: a whole number of milliseconds since
  1970-01-01T00:00 UTC, at most 8.64e15 in absolute value, or \<open>NaN\<close> for an Invalid
  Date (\<open>None\<close> here). \<open>timeClip\<close> is the operation TimeClip of ECMAScript, which every
  operation that makes or changes a \<open>Date\<close> applies to the new time value.

  The local time zone is a constant offset \<open>tz\<close> in milliseconds (local time is UTC
  plus \<open>tz\<close>); daylight-saving shifts are not part of the model. Local day 0 is
  1970-01-01, a Thursday.
\<close>

type_synonym jsDate = "int option"

definition msPerDay :: int where
  "msPerDay = 86400000"

definition maxTime :: int where
  "maxTime = 8640000000000000"

definition timeClip :: "int \<Rightarrow> jsDate" where
  "timeClip t = (if \<bar>t\<bar> \<le> maxTime then Some t else None)"

definition localDay :: "int \<Rightarrow> int \<Rightarrow> int" where
  "localDay tz t = (t + tz) div msPerDay"

text \<open>The day of the week of a local day: 0 is Sunday, 1 is Monday, ..., 6 is Saturday.\<close>

definition weekday :: "int \<Rightarrow> int" where
  "weekday d = (d + 4) mod 7"

text \<open>\<open>Date.prototype.getDay\<close>, on a valid date.\<close>

definition getDay :: "int \<Rightarrow> int \<Rightarrow> int" where
  "getDay tz t = weekday (localDay tz t)"

text \<open>
  \<open>d.setDate(d.getDate() + n)\<close> on a valid date: the local day moves by \<open>n\<close>, the local
  time of day stays. \<open>d.setHours(h, m, s, ms)\<close> on a valid date: the local day stays,
  the local time of day becomes the given one (here in milliseconds).
\<close>

definition addDays :: "int \<Rightarrow> int \<Rightarrow> jsDate" where
  "addDays t n = timeClip (t + n * msPerDay)"

definition setHours :: "int \<Rightarrow> int \<Rightarrow> int \<Rightarrow> jsDate" where
  "setHours tz t msOfDay = timeClip (localDay tz t * msPerDay + msOfDay - tz)"

text \<open>
  date-fns \<open>startOfWeek(date, {weekStartsOn})\<close>:
  \<^verbatim>\<open>
  const day = _date.getDay();
  const diff = (day < weekStartsOn ? 7 : 0) + day - weekStartsOn;
  _date.setDate(_date.getDate() - diff);
  _date.setHours(0, 0, 0, 0);
  \<close>
  and \<open>endOfWeek(date, {weekStartsOn})\<close>:
  \<^verbatim>\<open>
  const day = _date.getDay();
  const diff = (day < weekStartsOn ? -7 : 0) + 6 - (day - weekStartsOn);
  _date.setDate(_date.getDate() + diff);
  _date.setHours(23, 59, 59, 999);
  \<close>
  On an Invalid Date both return an Invalid Date, and a date that \<open>setDate\<close> has made
  invalid stays invalid under \<open>setHours\<close>.
\<close>

definition startOfWeek :: "int \<Rightarrow> jsDate \<Rightarrow> int \<Rightarrow> jsDate" where
  "startOfWeek tz d weekStartsOn =
     (case d of
        None \<Rightarrow> None
      | Some t \<Rightarrow>
          (let day = getDay tz t;
               diff = (if day < weekStartsOn then 7 else 0) + day - weekStartsOn
           in case addDays t (- diff) of
                None \<Rightarrow> None
              | Some t1 \<Rightarrow> setHours tz t1 0))"

definition endOfWeek :: "int \<Rightarrow> jsDate \<Rightarrow> int \<Rightarrow> jsDate" where
  "endOfWeek tz d weekStartsOn =
     (case d of
        None \<Rightarrow> None
      | Some t \<Rightarrow>
          (let day = getDay tz t;
               diff = (if day < weekStartsOn then - 7 else 0) + 6 - (day - weekStartsOn)
           in case addDays t diff of
                None \<Rightarrow> None
              | Some t1 \<Rightarrow> setHours tz t1 (23 * 3600000 + 59 * 60000 + 59 * 1000 + 999)))"

text \<open>
  \<open>a >= b\<close> and \<open>a <= b\<close> on two \<open>Date\<close> objects compare the time values; a
  comparison with \<open>NaN\<close> is false.
\<close>

definition date_ge :: "jsDate \<Rightarrow> jsDate \<Rightarrow> bool" where
  "date_ge a b = (case a of None \<Rightarrow> False
                  | Some x \<Rightarrow> (case b of None \<Rightarrow> False | Some y \<Rightarrow> y \<le> x))"

definition date_le :: "jsDate \<Rightarrow> jsDate \<Rightarrow> bool" where
  "date_le a b = (case a of None \<Rightarrow> False
                  | Some x \<Rightarrow> (case b of None \<Rightarrow> False | Some y \<Rightarrow> x \<le> y))"

subsection \<open>The parameters\<close>

text \<open>
  What the code takes from outside the repository and the model leaves open: date-fns
  \<open>parseISO\<close>, a function from strings to time values (\<open>None\<close> for an Invalid Date),
  \<open>String.prototype.toUpperCase\<close>, a function from strings to strings, and the offset
  of the local time zone. The properties below are proved for every such platform.
  \<open>parsed\<close> is the \<open>Date\<close> that \<open>parseISO\<close> returns: its time value, clipped as the
  time value of every \<open>Date\<close> is.
\<close>

record 's platform =
  parseISO :: "'s \<Rightarrow> int option"
  toUpperCase :: "'s \<Rightarrow> 's"
  tzOffset :: int

definition parsed :: "'s platform \<Rightarrow> 's \<Rightarrow> jsDate" where
  "parsed P s = (case parseISO P s of None \<Rightarrow> None | Some t \<Rightarrow> timeClip t)"

subsection \<open>A platform for the examples\<close>

text \<open>
  The examples use ASCII strings. \<open>toUpperCase_ascii\<close> is \<open>toUpperCase\<close> on strings of
  ASCII characters: the letters \<open>a\<close> to \<open>z\<close> (codes 97 to 122) become \<open>A\<close> to \<open>Z\<close> (codes 65
  to 90), every other ASCII character stays.

  \<open>parseISO_calendar\<close> is \<open>parseISO\<close> on the calendar-date forms \<open>YYYY-MM-DD\<close>,
  \<open>YYYYMMDD\<close> and \<open>+YYYYYY-MM-DD\<close>: local midnight of the day when year, month and day
  are digits and name a day of the proleptic Gregorian calendar, Invalid Date
  otherwise. The other forms that \<open>parseISO\<close> accepts (week dates, ordinal dates,
  times, time zones) are not used in the examples.
\<close>

definition upper_char :: "char \<Rightarrow> char" where
  "upper_char c =
     (if (97::nat) \<le> of_char c \<and> of_char c \<le> (122::nat)
      then char_of (of_char c - (32::nat)) else c)"

definition toUpperCase_ascii :: "string \<Rightarrow> string" where
  "toUpperCase_ascii s = map upper_char s"

fun digits :: "string \<Rightarrow> int \<Rightarrow> int option" where
  "digits [] acc = Some acc"
| "digits (c # cs) acc =
     (if (48::int) \<le> of_char c \<and> of_char c \<le> (57::int)
      then digits cs (10 * acc + (of_char c - 48)) else None)"

definition isLeapYearIndex :: "int \<Rightarrow> bool" where
  "isLeapYearIndex year = (year mod 400 = 0 \<or> (year mod 4 = 0 \<and> year mod 100 \<noteq> 0))"

definition daysInMonth :: "int \<Rightarrow> int \<Rightarrow> int" where
  "daysInMonth year month =
     (if month = 2 then (if isLeapYearIndex year then 29 else 28)
      else if month = 4 \<or> month = 6 \<or> month = 9 \<or> month = 11 then 30 else 31)"

definition validateDate :: "int \<Rightarrow> int \<Rightarrow> int \<Rightarrow> bool" where
  "validateDate year month day =
     (1 \<le> month \<and> month \<le> 12 \<and> 1 \<le> day \<and> day \<le> daysInMonth year month)"

text \<open>The number of days from 1970-01-01 to the given day of the Gregorian calendar.\<close>

definition daysFromCivil :: "int \<Rightarrow> int \<Rightarrow> int \<Rightarrow> int" where
  "daysFromCivil year month day =
     (let y = (if month \<le> 2 then year - 1 else year);
          era = y div 400;
          yoe = y - era * 400;
          mp = (month + 9) mod 12;
          doy = (153 * mp + 2) div 5 + day - 1;
          doe = yoe * 365 + yoe div 4 - yoe div 100 + doy
      in era * 146097 + doe - 719468)"

definition makeDate :: "int \<Rightarrow> string \<Rightarrow> string \<Rightarrow> string \<Rightarrow> int option" where
  "makeDate tz ys ms ds =
     (case digits ys 0 of None \<Rightarrow> None
      | Some y \<Rightarrow>
     (case digits ms 0 of None \<Rightarrow> None
      | Some m \<Rightarrow>
     (case digits ds 0 of None \<Rightarrow> None
      | Some d \<Rightarrow>
          if validateDate y m d
          then Some (daysFromCivil y m d * msPerDay - tz)
          else None)))"

definition parseISO_calendar :: "int \<Rightarrow> string \<Rightarrow> int option" where
  "parseISO_calendar tz s =
     (if length s = 10 \<and> s ! 4 = CHR ''-'' \<and> s ! 7 = CHR ''-''
      then makeDate tz (take 4 s) (take 2 (drop 5 s)) (drop 8 s)
      else if length s = 8
      then makeDate tz (take 4 s) (take 2 (drop 4 s)) (drop 6 s)
      else if length s = 13 \<and> s ! 0 = CHR ''+'' \<and> s ! 7 = CHR ''-'' \<and> s ! 10 = CHR ''-''
      then makeDate tz (take 6 (drop 1 s)) (take 2 (drop 8 s)) (drop 11 s)
      else None)"

definition utc :: "string platform" where
  "utc = \<lparr>parseISO = parseISO_calendar 0, toUpperCase = toUpperCase_ascii, tzOffset = 0\<rparr>"


section \<open>The weekly count (ReservationContext.tsx, lines 54-67)\<close>

text \<open>
  \<^verbatim>\<open>
  const getWeeklyApartmentReservationsCount = (portal, floor, door, date) => {
    const reservationDate = parseISO(date);
    const weekStart = startOfWeek(reservationDate, { weekStartsOn: 1 });
    const weekEnd = endOfWeek(reservationDate, { weekStartsOn: 1 });
    return reservations.filter(res => {
      const resDate = parseISO(res.date);
      return resDate >= weekStart && resDate <= weekEnd &&
             res.portal === portal && res.floor === floor &&
             res.door.toUpperCase() === door.toUpperCase();
    }).length;
  };
  \<close>
  The list \<open>reservations\<close> that the function reads (the one of the render that made
  the function, see below) is an argument here.
\<close>

definition getWeeklyApartmentReservationsCount ::
  "'s platform \<Rightarrow> 's Reservation list \<Rightarrow> 's \<Rightarrow> 's \<Rightarrow> 's \<Rightarrow> 's \<Rightarrow> nat" where
  "getWeeklyApartmentReservationsCount P reservations' portal' floor' door' date' =
     (let reservationDate = parsed P date';
          weekStart = startOfWeek (tzOffset P) reservationDate 1;
          weekEnd = endOfWeek (tzOffset P) reservationDate 1
      in length (filter (\<lambda>res.
           (let resDate = parsed P (date res)
            in date_ge resDate weekStart \<and>
               date_le resDate weekEnd \<and>
               portal res = portal' \<and>
               floor_r res = floor' \<and>
               toUpperCase P (door res) = toUpperCase P door')) reservations'))"


section \<open>The provider's state and the store (ReservationContext.tsx, lines 28-52)\<close>

text \<open>
  The kinds of rejection. \<open>createReservation\<close> throws
  \<open>Error('Usuario no autenticado')\<close> (\<open>Unauthenticated\<close>),
  \<open>Error('Esta fecha ya esta reservada')\<close> (\<open>DateAlreadyReserved\<close>),
  \<open>Error('Esta vivienda ya ha alcanzado el limite de 2 reservas esta semana')\<close>
  (\<open>WeeklyQuotaExceeded\<close>), and rethrows what \<open>addDoc\<close> throws (\<open>StoreError\<close>).
  \<open>NotFound\<close> and \<open>Forbidden\<close> are the two other kinds the specification names; no
  statement of the source throws them.
\<close>

datatype error =
    Unauthenticated
  | DateAlreadyReserved
  | WeeklyQuotaExceeded
  | NotFound
  | Forbidden
  | StoreError

text \<open>
  The notifications, one constructor for each call of \<open>toast.error\<close> or
  \<open>toast.success\<close>: \<open>LoadFailed\<close> is 'Error al cargar las reservas',
  \<open>LoginToReserve\<close> is 'Debes iniciar sesion para hacer una reserva',
  \<open>CreateFailed e\<close> is the message of the error \<open>e\<close> caught in \<open>createReservation\<close>,
  \<open>LoginToCancel\<close> is 'Debes iniciar sesion para cancelar una reserva',
  \<open>ReservationNotFound\<close> is 'Reserva no encontrada', \<open>NotYourReservation\<close> is
  'Solo puedes cancelar tus propias reservas', \<open>CancelSucceeded\<close> is 'Reserva
  cancelada con exito' and \<open>CancelFailed\<close> is 'Error al cancelar la reserva'.
\<close>

datatype toast =
    LoadFailed
  | LoginToReserve
  | CreateFailed error
  | LoginToCancel
  | ReservationNotFound
  | NotYourReservation
  | CancelSucceeded
  | CancelFailed

text \<open>What an operation does to the outside: a toast, or a call of the store with its outcome.\<close>

datatype 's event =
    Toast toast
  | GetDocs bool
  | AddDoc bool
  | DeleteDoc 's bool

text \<open>
  A render of \<open>ReservationProvider\<close> reads \<open>reservations\<close> from \<open>useState\<close> (line 29) and
  \<open>user\<close> from \<open>useAuth()\<close> (line 30; the \<open>uid\<close>, or \<open>None\<close> for \<open>null\<close>), and makes the
  functions \<open>createReservation\<close>, \<open>cancelReservation\<close> and
  \<open>getWeeklyApartmentReservationsCount\<close>, which read these two values for as long as
  they are called: a function made by one render does not see what a later
  \<open>setReservations\<close> stores. The record \<open>render\<close> holds the two values of one render.

  The state: \<open>latest\<close> holds the current values of the two React states (what the next
  render will read), \<open>store\<close> the documents of the Firestore collection
  'reservations', each with its document id, and \<open>events\<close> the trace of toasts and
  store calls. A listing returns the documents in the order of the list \<open>store\<close>; no
  property below depends on the order.
\<close>

record 's render =
  reservations :: "'s Reservation list"
  user :: "'s option"

record 's state =
  latest :: "'s render"
  store :: "'s Reservation list"
  events :: "'s event list"

text \<open>
  What the outside decides during one operation: whether \<open>getDocs\<close>, \<open>addDoc\<close> and
  \<open>deleteDoc\<close> succeed (each is called at most once in an operation), the id the
  store gives to a new document, and \<open>Timestamp.now()\<close>. A store call that fails
  leaves the collection as it was. Firestore gives every new document an id of its
  own; the properties below hold for any choice of \<open>newId\<close>.
\<close>

record 's env =
  getDocs_ok :: bool
  addDoc_ok :: bool
  deleteDoc_ok :: bool
  newId :: 's
  now :: nat

definition emit :: "'s event list \<Rightarrow> 's state \<Rightarrow> 's state" where
  "emit es s = s\<lparr>events := events s @ es\<rparr>"

definition setReservations :: "'s Reservation list \<Rightarrow> 's state \<Rightarrow> 's state" where
  "setReservations rs s = s\<lparr>latest := (latest s)\<lparr>reservations := rs\<rparr>\<rparr>"

text \<open>
  \<^verbatim>\<open>
  const loadReservations = async () => {
    try {
      const querySnapshot = await getDocs(q);
      const loadedReservations = querySnapshot.docs.map(doc => ({id: doc.id, ...doc.data()}));
      setReservations(loadedReservations);
    } catch (error) {
      console.error('Error cargando reservas:', error);
      toast.error('Error al cargar las reservas');
    }
  };
  \<close>
  The result is what the caller of the function receives: \<open>Inl e\<close> for a thrown error
  \<open>e\<close>, \<open>Inr ()\<close> for a normal return. The function reads nothing of its render.
\<close>

definition loadReservations :: "'s env \<Rightarrow> 's state \<Rightarrow> (error + unit) \<times> 's state" where
  "loadReservations io s =
     (if getDocs_ok io
      then (Inr (), emit [GetDocs True] (setReservations (store s) s))
      else (Inr (), emit [GetDocs False, Toast LoadFailed] s))"


section \<open>createReservation (ReservationContext.tsx, lines 69-107)\<close>

text \<open>
  \<^verbatim>\<open>
  const createReservation = async (data) => {
    if (!user) {
      toast.error('Debes iniciar sesion para hacer una reserva');
      throw new Error('Usuario no autenticado');
    }
    try {
      const existingReservation = reservations.find(r => r.date === data.date);
      if (existingReservation) { throw new Error('Esta fecha ya esta reservada'); }
      const weeklyReservationsCount = getWeeklyApartmentReservationsCount(
        data.portal, data.floor, data.door, data.date);
      if (weeklyReservationsCount >= 2) { throw new Error('... limite de 2 reservas ...'); }
      const reservationData = { ...data, userId: user.uid, createdAt: Timestamp.now() };
      await addDoc(reservationsRef, reservationData);
      await loadReservations();
    } catch (error) {
      console.error('Error creando reserva:', error);
      toast.error(error.message || 'Error al crear la reserva');
      throw error;
    }
  };
  \<close>
  The argument \<open>c\<close> is the render that made the function: \<open>user\<close> and \<open>reservations\<close>
  are its values.
\<close>

definition reservationData :: "'s ReservationData \<Rightarrow> 's \<Rightarrow> 's env \<Rightarrow> 's Reservation" where
  "reservationData data uid io =
     \<lparr>portal = portal data, floor_r = floor_r data, door = door data, date = date data,
      status = status data, id_r = newId io, createdAt = now io, userId = uid\<rparr>"

definition createReservation ::
  "'s platform \<Rightarrow> 's env \<Rightarrow> 's render \<Rightarrow> 's ReservationData \<Rightarrow> 's state
     \<Rightarrow> (error + unit) \<times> 's state" where
  "createReservation P io c data s =
     (case user c of
        None \<Rightarrow> (Inl Unauthenticated, emit [Toast LoginToReserve] s)
      | Some uid \<Rightarrow>
          if find (\<lambda>r. date r = date data) (reservations c) \<noteq> None
          then (Inl DateAlreadyReserved, emit [Toast (CreateFailed DateAlreadyReserved)] s)
          else if 2 \<le> getWeeklyApartmentReservationsCount P (reservations c)
                        (portal data) (floor_r data) (door data) (date data)
          then (Inl WeeklyQuotaExceeded, emit [Toast (CreateFailed WeeklyQuotaExceeded)] s)
          else if \<not> addDoc_ok io
          then (Inl StoreError, emit [AddDoc False, Toast (CreateFailed StoreError)] s)
          else
            (let s1 = emit [AddDoc True] (s\<lparr>store := store s @ [reservationData data uid io]\<rparr>);
                 s2 = snd (loadReservations io s1)
             in (Inr (), s2)))"


section \<open>cancelReservation (ReservationContext.tsx, lines 109-135)\<close>

text \<open>
  \<^verbatim>\<open>
  const cancelReservation = async (id) => {
    if (!user) { toast.error('Debes iniciar sesion para cancelar una reserva'); return; }
    const reservation = reservations.find(r => r.id === id);
    if (!reservation) { toast.error('Reserva no encontrada'); return; }
    if (reservation.userId !== user.uid) {
      toast.error('Solo puedes cancelar tus propias reservas'); return;
    }
    try {
      await deleteDoc(doc(db, 'reservations', id));
      toast.success('Reserva cancelada con exito');
      await loadReservations();
    } catch (error) {
      console.error('Error cancelando reserva:', error);
      toast.error('Error al cancelar la reserva');
    }
  };
  \<close>
  \<open>deleteDoc\<close> removes the document of the given id. The argument \<open>c\<close> is the render
  that made the function.
\<close>

definition cancelReservation ::
  "'s env \<Rightarrow> 's render \<Rightarrow> 's \<Rightarrow> 's state \<Rightarrow> (error + unit) \<times> 's state" where
  "cancelReservation io c i s =
     (case user c of
        None \<Rightarrow> (Inr (), emit [Toast LoginToCancel] s)
      | Some uid \<Rightarrow>
          (case find (\<lambda>r. id_r r = i) (reservations c) of
             None \<Rightarrow> (Inr (), emit [Toast ReservationNotFound] s)
           | Some reservation \<Rightarrow>
               if userId reservation \<noteq> uid
               then (Inr (), emit [Toast NotYourReservation] s)
               else if \<not> deleteDoc_ok io
               then (Inr (), emit [DeleteDoc i False, Toast CancelFailed] s)
               else
                 (let s1 = emit [DeleteDoc i True, Toast CancelSucceeded]
                             (s\<lparr>store := filter (\<lambda>r. id_r r \<noteq> i) (store s)\<rparr>);
                      s2 = snd (loadReservations io s1)
                  in (Inr (), s2))))"


section \<open>Sequences of operations\<close>

text \<open>
  The provider's life is a sequence of steps: a render, which makes new functions
  from the current React states; the load of the first render (\<open>useEffect\<close>); creates
  and cancels, called through the functions of the last render; and the changes of
  the signed-in user that \<open>onAuthStateChanged\<close> delivers (AuthContext.tsx, lines
  28-35). A configuration is the render whose functions the user interface holds,
  and the state.
\<close>

datatype 's op =
    Render
  | LoadReservations "'s env"
  | CreateReservation "'s env" "'s ReservationData"
  | CancelReservation "'s env" 's
  | AuthStateChanged "'s option"

fun step :: "'s platform \<Rightarrow> 's op \<Rightarrow> 's render \<times> 's state \<Rightarrow> 's render \<times> 's state" where
  "step P Render (c, s) = (latest s, s)"
| "step P (LoadReservations io) (c, s) = (c, snd (loadReservations io s))"
| "step P (CreateReservation io data) (c, s) = (c, snd (createReservation P io c data s))"
| "step P (CancelReservation io i) (c, s) = (c, snd (cancelReservation io c i s))"
| "step P (AuthStateChanged u) (c, s) = (c, s\<lparr>latest := (latest s)\<lparr>user := u\<rparr>\<rparr>)"

fun run :: "'s platform \<Rightarrow> 's op list \<Rightarrow> 's render \<times> 's state \<Rightarrow> 's render \<times> 's state" where
  "run P [] cs = cs"
| "run P (x # xs) cs = run P xs (step P x cs)"


section \<open>The properties of the specification\<close>

text \<open>
  The week of an instant, as the specification words it: the Monday-to-Sunday calendar
  week that holds its local day. \<open>weekIndex\<close> numbers these weeks; week 0 runs from
  Monday 1969-12-29 (day -3) to Sunday 1970-01-04 (day 3), and week \<open>w\<close> from day
  \<open>7 * w - 3\<close> to day \<open>7 * w + 3\<close>.
\<close>

definition weekIndex :: "int \<Rightarrow> int \<Rightarrow> int" where
  "weekIndex tz t = (localDay tz t + 3) div 7"

definition sameWeek :: "int \<Rightarrow> jsDate \<Rightarrow> jsDate \<Rightarrow> bool" where
  "sameWeek tz a b =
     (case a of None \<Rightarrow> False
      | Some x \<Rightarrow> (case b of None \<Rightarrow> False | Some y \<Rightarrow> weekIndex tz x = weekIndex tz y))"

text \<open>
  The week of a date lies within the range of time values when 00:00 of its Monday
  and 23:59:59.999 of its Sunday, in local time, are time values of at most 8.64e15
  in absolute value.
\<close>

definition weekInRange :: "int \<Rightarrow> jsDate \<Rightarrow> bool" where
  "weekInRange tz b =
     (case b of
        None \<Rightarrow> False
      | Some t \<Rightarrow>
          - maxTime \<le> (7 * weekIndex tz t - 3) * msPerDay - tz \<and>
          (7 * weekIndex tz t + 3) * msPerDay + 86399999 - tz \<le> maxTime)"

text \<open>
  Two strings are equal up to letter case when their upper-case forms are equal.
\<close>

definition sameUpToCase :: "'s platform \<Rightarrow> 's \<Rightarrow> 's \<Rightarrow> bool" where
  "sameUpToCase P a b = (toUpperCase P a = toUpperCase P b)"

text \<open>The count of the specification's QuotaCalculator, in its words.\<close>

definition countWeekly ::
  "'s platform \<Rightarrow> 's Reservation list \<Rightarrow> 's \<Rightarrow> 's \<Rightarrow> 's \<Rightarrow> 's \<Rightarrow> nat" where
  "countWeekly P rs portal' floor' door' date' =
     length (filter (\<lambda>r. sameWeek (tzOffset P) (parsed P (date r)) (parsed P date') \<and>
                         portal r = portal' \<and> floor_r r = floor' \<and>
                         sameUpToCase P (door r) door') rs)"

text \<open>
  I1 of the specification: no two reservations of the set are for the same calendar
  date. Two date strings are for the same calendar date when they are equal or parse
  to instants of the same local day. \<open>uniqueDateStrings\<close> is the weaker property that
  no two reservations have the same date string.
\<close>

definition sameCalendarDate :: "'s platform \<Rightarrow> 's \<Rightarrow> 's \<Rightarrow> bool" where
  "sameCalendarDate P a b =
     (a = b \<or>
      (case parsed P a of None \<Rightarrow> False
       | Some x \<Rightarrow> (case parsed P b of None \<Rightarrow> False
                     | Some y \<Rightarrow> localDay (tzOffset P) x = localDay (tzOffset P) y)))"

primrec I1 :: "'s platform \<Rightarrow> 's Reservation list \<Rightarrow> bool" where
  "I1 P [] = True"
| "I1 P (r # rs) = (list_all (\<lambda>q. \<not> sameCalendarDate P (date r) (date q)) rs \<and> I1 P rs)"

definition uniqueDateStrings :: "'s Reservation list \<Rightarrow> bool" where
  "uniqueDateStrings rs = distinct (map date rs)"

text \<open>
  I2 of the specification: for every unit and every week (given by a date in it) the
  weekly count is at most 2. \<open>I2_inRange\<close> is I2 for the weeks within the range of
  time values.
\<close>

definition I2 :: "'s platform \<Rightarrow> 's Reservation list \<Rightarrow> bool" where
  "I2 P rs = (\<forall>p f d dt. countWeekly P rs p f d dt \<le> 2)"

definition I2_inRange :: "'s platform \<Rightarrow> 's Reservation list \<Rightarrow> bool" where
  "I2_inRange P rs =
     (\<forall>p f d dt. weekInRange (tzOffset P) (parsed P dt) \<longrightarrow> countWeekly P rs p f d dt \<le> 2)"

text \<open>
  The condition of the code's filter, in the words above: the reservation lies in the
  week of the target date, that week is within the range of time values, and the
  reservation belongs to the unit.
\<close>

definition matches :: "'s platform \<Rightarrow> 's \<Rightarrow> 's \<Rightarrow> 's \<Rightarrow> 's \<Rightarrow> 's Reservation \<Rightarrow> bool" where
  "matches P portal' floor' door' date' r =
     (sameWeek (tzOffset P) (parsed P (date r)) (parsed P date') \<and>
      weekInRange (tzOffset P) (parsed P date') \<and>
      portal r = portal' \<and> floor_r r = floor' \<and>
      toUpperCase P (door r) = toUpperCase P door')"

text \<open>
  The condition under which \<open>cancelReservation\<close> reaches \<open>deleteDoc\<close>: a user is signed
  in, the view has a reservation of the given id, and the first such reservation
  belongs to the user.
\<close>

definition canCancel :: "'s render \<Rightarrow> 's \<Rightarrow> bool" where
  "canCancel c i =
     (case user c of
        None \<Rightarrow> False
      | Some uid \<Rightarrow>
          (case find (\<lambda>r. id_r r = i) (reservations c) of
             None \<Rightarrow> False
           | Some r \<Rightarrow> userId r = uid))"

text \<open>
  The sequences in which every create is called through the function of a render
  made after the last change of the state, and the refresh of every create (the
  \<open>loadReservations\<close> after \<open>addDoc\<close>) does not fail. The first argument tells whether
  the render in hand is such a render.
\<close>

fun disciplined :: "bool \<Rightarrow> 's op list \<Rightarrow> bool" where
  "disciplined fresh [] = True"
| "disciplined fresh (Render # xs) = disciplined True xs"
| "disciplined fresh (CreateReservation io data # xs) =
     (fresh \<and> getDocs_ok io \<and> disciplined False xs)"
| "disciplined fresh (LoadReservations io # xs) = disciplined False xs"
| "disciplined fresh (CancelReservation io i # xs) = disciplined False xs"
| "disciplined fresh (AuthStateChanged u # xs) = disciplined False xs"

text \<open>For the examples: a reservation of user \<open>u\<close> with document id \<open>i\<close>, a request, the
  outcomes of the store calls, a render, and a state whose view shows the store.\<close>

definition reservation :: "'s \<Rightarrow> 's \<Rightarrow> 's \<Rightarrow> 's \<Rightarrow> 's \<Rightarrow> 's \<Rightarrow> 's Reservation" where
  "reservation i u p f d dt =
     \<lparr>portal = p, floor_r = f, door = d, date = dt, status = Confirmed,
      id_r = i, createdAt = 0, userId = u\<rparr>"

definition request :: "'s \<Rightarrow> 's \<Rightarrow> 's \<Rightarrow> 's \<Rightarrow> 's ReservationData" where
  "request p f d dt = \<lparr>portal = p, floor_r = f, door = d, date = dt, status = Confirmed\<rparr>"

definition outcome :: "bool \<Rightarrow> bool \<Rightarrow> bool \<Rightarrow> 's \<Rightarrow> 's env" where
  "outcome g a d i = \<lparr>getDocs_ok = g, addDoc_ok = a, deleteDoc_ok = d, newId = i, now = 0\<rparr>"

definition view :: "'s option \<Rightarrow> 's Reservation list \<Rightarrow> 's render" where
  "view u rs = \<lparr>reservations = rs, user = u\<rparr>"

definition session :: "'s option \<Rightarrow> 's Reservation list \<Rightarrow> 's state" where
  "session u rs = \<lparr>latest = view u rs, store = rs, events = []\<rparr>"


section \<open>Lemmas\<close>

subsection \<open>Weeks\<close>

lemma div7_eq_iff: "((a::int) div 7 = q) = (7 * q \<le> a \<and> a < 7 * q + 7)"
proof -
  have a: "a = 7 * (a div 7) + a mod 7" by simp
  have b: "0 \<le> a mod 7" "a mod 7 < 7" by simp_all
  show ?thesis using a b by linarith
qed

lemma weekday_cases:
  fixes d0 :: int
  defines "r \<equiv> (d0 + 3) mod 7"
  shows "weekday d0 = (if r = 6 then 0 else r + 1)"
proof -
  have r: "0 \<le> r" "r < 7" by (simp_all add: r_def)
  have "d0 + 4 = 7 * ((d0 + 3) div 7) + (r + 1)" by (simp add: r_def)
  then have "(d0 + 4) mod 7 = (r + 1) mod 7"
    by (simp only: mod_mult_self4)
  also have "\<dots> = (if r = 6 then 0 else r + 1)"
    using r by simp
  finally show ?thesis by (simp add: weekday_def)
qed

lemma day_ge: "(S * msPerDay \<le> t) = (S \<le> t div msPerDay)"
proof -
  have a: "t = 86400000 * (t div 86400000) + t mod 86400000" by simp
  have b: "0 \<le> t mod 86400000" "t mod 86400000 < 86400000" by simp_all
  show ?thesis unfolding msPerDay_def using a b by linarith
qed

lemma day_le: "(t \<le> E * msPerDay + 86399999) = (t div msPerDay \<le> E)"
proof -
  have a: "t = 86400000 * (t div 86400000) + t mod 86400000" by simp
  have b: "0 \<le> t mod 86400000" "t mod 86400000 < 86400000" by simp_all
  show ?thesis unfolding msPerDay_def using a b by linarith
qed

lemma localDay_ge: "(S * msPerDay - tz \<le> t) = (S \<le> localDay tz t)"
  using day_ge [of S "t + tz"] by (simp add: localDay_def) linarith

lemma localDay_le: "(t \<le> E * msPerDay + 86399999 - tz) = (localDay tz t \<le> E)"
  using day_le [of "t + tz" E] by (simp add: localDay_def) linarith

lemma localDay_shift: "localDay tz (t + n * msPerDay) = localDay tz t + n"
proof -
  have "(t + tz + n * 86400000) div 86400000 = (t + tz) div 86400000 + n"
    by simp
  then show ?thesis by (simp add: localDay_def msPerDay_def add.assoc add.commute add.left_commute)
qed

lemma parsed_valid: "parsed P s = Some t \<Longrightarrow> \<bar>t\<bar> \<le> maxTime"
  by (auto simp: parsed_def timeClip_def split: option.splits if_splits)

lemma week_bounds:
  "(7 * weekIndex tz t - 3) * msPerDay - tz \<le> t"
  "t \<le> (7 * weekIndex tz t + 3) * msPerDay + 86399999 - tz"
proof -
  define d where "d = localDay tz t"
  have a: "7 * weekIndex tz t \<le> d + 3" "d + 3 < 7 * weekIndex tz t + 7"
    using div7_eq_iff [of "d + 3" "weekIndex tz t"] by (simp_all add: weekIndex_def d_def)
  show "(7 * weekIndex tz t - 3) * msPerDay - tz \<le> t"
    unfolding localDay_ge using a by (simp add: d_def)
  show "t \<le> (7 * weekIndex tz t + 3) * msPerDay + 86399999 - tz"
    unfolding localDay_le using a by (simp add: d_def)
qed

lemma week_diffs:
  fixes tz t0 :: int
  defines "r \<equiv> (localDay tz t0 + 3) mod 7"
  shows "(if getDay tz t0 < 1 then 7 else 0) + getDay tz t0 - 1 = r"
    and "(if getDay tz t0 < 1 then - 7 else 0) + 6 - (getDay tz t0 - 1) = 6 - r"
    and "0 \<le> r" and "r \<le> 6"
    and "localDay tz t0 - r = 7 * weekIndex tz t0 - 3"
proof -
  have r: "0 \<le> r" "r < 7" by (simp_all add: r_def)
  have g: "getDay tz t0 = (if r = 6 then 0 else r + 1)"
    unfolding getDay_def r_def by (rule weekday_cases)
  show "(if getDay tz t0 < 1 then 7 else 0) + getDay tz t0 - 1 = r"
    using g r by simp
  show "(if getDay tz t0 < 1 then - 7 else 0) + 6 - (getDay tz t0 - 1) = 6 - r"
    using g r by simp
  show "0 \<le> r" "r \<le> 6" using r by simp_all
  have "localDay tz t0 + 3 = 7 * weekIndex tz t0 + r"
    by (simp add: weekIndex_def r_def)
  then show "localDay tz t0 - r = 7 * weekIndex tz t0 - 3" by simp
qed

lemma startOfWeek_clip:
  assumes "\<bar>t0\<bar> \<le> maxTime"
  shows "startOfWeek tz (Some t0) 1 = timeClip ((7 * weekIndex tz t0 - 3) * msPerDay - tz)"
proof -
  define r where "r = (localDay tz t0 + 3) mod 7"
  define t1 where "t1 = t0 + (- r) * msPerDay"
  define M where "M = (7 * weekIndex tz t0 - 3) * msPerDay - tz"
  note w = week_diffs [of tz t0, folded r_def]
  have d1: "localDay tz t1 = 7 * weekIndex tz t0 - 3"
    unfolding t1_def localDay_shift using w(5) by simp
  have le: "t1 \<le> t0" using w(3) by (simp add: t1_def msPerDay_def)
  have Mt1: "M \<le> t1"
    unfolding M_def localDay_ge d1 by simp
  have "startOfWeek tz (Some t0) 1 =
          (case addDays t0 (- r) of None \<Rightarrow> None | Some t \<Rightarrow> setHours tz t 0)"
    unfolding startOfWeek_def Let_def option.case w(1) ..
  then have s: "startOfWeek tz (Some t0) 1 =
             (case timeClip t1 of None \<Rightarrow> None | Some t \<Rightarrow> setHours tz t 0)"
    by (simp add: addDays_def t1_def)
  show ?thesis
  proof (cases "\<bar>t1\<bar> \<le> maxTime")
    case True
    then show ?thesis
      unfolding s by (simp add: timeClip_def setHours_def d1)
  next
    case False
    with le assms have "t1 < - maxTime" by linarith
    with Mt1 have "M < - maxTime" by linarith
    then have "timeClip M = None" by (simp add: timeClip_def maxTime_def)
    moreover have "timeClip t1 = None" using False by (simp add: timeClip_def)
    ultimately show ?thesis unfolding s M_def by simp
  qed
qed

lemma endOfWeek_clip:
  assumes "\<bar>t0\<bar> \<le> maxTime"
  shows "endOfWeek tz (Some t0) 1 =
           timeClip ((7 * weekIndex tz t0 + 3) * msPerDay + 86399999 - tz)"
proof -
  define r where "r = (localDay tz t0 + 3) mod 7"
  define t1 where "t1 = t0 + (6 - r) * msPerDay"
  define E where "E = (7 * weekIndex tz t0 + 3) * msPerDay + 86399999 - tz"
  note w = week_diffs [of tz t0, folded r_def]
  have d1: "localDay tz t1 = 7 * weekIndex tz t0 + 3"
    unfolding t1_def localDay_shift using w(5) by simp
  have le: "t0 \<le> t1" using w(4) by (simp add: t1_def msPerDay_def)
  have Et1: "t1 \<le> E"
    unfolding E_def localDay_le d1 by simp
  have "endOfWeek tz (Some t0) 1 =
          (case addDays t0 (6 - r) of None \<Rightarrow> None
           | Some t \<Rightarrow> setHours tz t (23 * 3600000 + 59 * 60000 + 59 * 1000 + 999))"
    unfolding endOfWeek_def Let_def option.case w(2) ..
  then have s: "endOfWeek tz (Some t0) 1 =
             (case timeClip t1 of None \<Rightarrow> None | Some t \<Rightarrow> setHours tz t 86399999)"
    by (simp add: addDays_def t1_def cong: option.case_cong)
  show ?thesis
  proof (cases "\<bar>t1\<bar> \<le> maxTime")
    case True
    then show ?thesis
      unfolding s by (simp add: timeClip_def setHours_def d1)
  next
    case False
    with le assms have "maxTime < t1" by linarith
    with Et1 have "maxTime < E" by linarith
    then have "timeClip E = None" by (simp add: timeClip_def maxTime_def)
    moreover have "timeClip t1 = None" using False by (simp add: timeClip_def)
    ultimately show ?thesis unfolding s E_def by simp
  qed
qed

lemma week_window:
  assumes "\<bar>t0\<bar> \<le> maxTime"
  shows "(date_ge (Some t) (startOfWeek tz (Some t0) 1) \<and>
          date_le (Some t) (endOfWeek tz (Some t0) 1))
         = (weekIndex tz t = weekIndex tz t0 \<and> weekInRange tz (Some t0))"
proof -
  define q where "q = weekIndex tz t0"
  define M where "M = (7 * q - 3) * msPerDay - tz"
  define E where "E = (7 * q + 3) * msPerDay + 86399999 - tz"
  have b: "M \<le> t0" "t0 \<le> E"
    using week_bounds [where tz = tz and t = t0] by (simp_all add: M_def E_def q_def)
  have s: "startOfWeek tz (Some t0) 1 = timeClip M"
    and e: "endOfWeek tz (Some t0) 1 = timeClip E"
    using startOfWeek_clip [OF assms] endOfWeek_clip [OF assms] by (simp_all add: M_def E_def q_def)
  have inr: "weekInRange tz (Some t0) = (- maxTime \<le> M \<and> E \<le> maxTime)"
    by (simp add: weekInRange_def M_def E_def q_def)
  have wk: "(M \<le> t \<and> t \<le> E) = (weekIndex tz t = q)"
  proof -
    have "(M \<le> t \<and> t \<le> E) = (7 * q - 3 \<le> localDay tz t \<and> localDay tz t \<le> 7 * q + 3)"
      unfolding M_def E_def localDay_ge localDay_le ..
    also have "\<dots> = ((localDay tz t + 3) div 7 = q)"
      unfolding div7_eq_iff by linarith
    finally show ?thesis by (simp add: weekIndex_def)
  qed
  show ?thesis
  proof (cases "- maxTime \<le> M \<and> E \<le> maxTime")
    case True
    with b assms have "\<bar>M\<bar> \<le> maxTime" "\<bar>E\<bar> \<le> maxTime" by linarith+
    then have "timeClip M = Some M" "timeClip E = Some E" by (simp_all add: timeClip_def)
    then show ?thesis
      unfolding s e inr using True wk by (simp add: date_ge_def date_le_def q_def)
  next
    case False
    then have "timeClip M = None \<or> timeClip E = None"
      by (auto simp: timeClip_def)
    then show ?thesis
      unfolding s e inr using False by (auto simp: date_ge_def date_le_def)
  qed
qed

lemma in_window:
  assumes "\<And>t0. b = Some t0 \<Longrightarrow> \<bar>t0\<bar> \<le> maxTime"
  shows "(date_ge a (startOfWeek tz b 1) \<and> date_le a (endOfWeek tz b 1))
         = (sameWeek tz a b \<and> weekInRange tz b)"
proof (cases a)
  case None
  then show ?thesis by (simp add: date_ge_def date_le_def sameWeek_def)
next
  case (Some t)
  show ?thesis
  proof (cases b)
    case None
    then show ?thesis
      by (simp add: Some date_ge_def date_le_def sameWeek_def startOfWeek_def)
  next
    case (Some t0)
    then show ?thesis
      using week_window [OF assms [OF Some], of t tz] by (simp add: \<open>a = Some t\<close> sameWeek_def)
  qed
qed

text \<open>Two instants have the same week index iff their local days lie from one Monday
  to the Sunday after it.\<close>

lemma sameWeek_Monday:
  "(weekIndex tz t = weekIndex tz t0) =
   (\<exists>m. weekday m = 1 \<and>
        m \<le> localDay tz t0 \<and> localDay tz t0 \<le> m + 6 \<and>
        m \<le> localDay tz t \<and> localDay tz t \<le> m + 6)"
proof
  assume eq: "weekIndex tz t = weekIndex tz t0"
  define q where "q = weekIndex tz t0"
  define m where "m = 7 * q - 3"
  have "(m + 4) mod 7 = (7 * q + 1) mod 7" by (simp add: m_def)
  also have "\<dots> = 1" by (simp only: mod_mult_self4) simp
  finally have mon: "weekday m = 1" by (simp add: weekday_def)
  have a: "7 * q \<le> localDay tz t0 + 3" "localDay tz t0 + 3 < 7 * q + 7"
    using div7_eq_iff [of "localDay tz t0 + 3" q] by (simp_all add: q_def weekIndex_def)
  have b: "7 * q \<le> localDay tz t + 3" "localDay tz t + 3 < 7 * q + 7"
    using div7_eq_iff [of "localDay tz t + 3" q] eq by (simp_all add: q_def weekIndex_def)
  have "m \<le> localDay tz t0 \<and> localDay tz t0 \<le> m + 6 \<and>
        m \<le> localDay tz t \<and> localDay tz t \<le> m + 6"
    using a b by (simp add: m_def)
  with mon show "\<exists>m. weekday m = 1 \<and>
        m \<le> localDay tz t0 \<and> localDay tz t0 \<le> m + 6 \<and>
        m \<le> localDay tz t \<and> localDay tz t \<le> m + 6" by blast
next
  assume "\<exists>m. weekday m = 1 \<and>
        m \<le> localDay tz t0 \<and> localDay tz t0 \<le> m + 6 \<and>
        m \<le> localDay tz t \<and> localDay tz t \<le> m + 6"
  then obtain m where mon: "weekday m = 1"
    and a: "m \<le> localDay tz t0" "localDay tz t0 \<le> m + 6"
    and b: "m \<le> localDay tz t" "localDay tz t \<le> m + 6"
    by blast
  from mon have m1: "(m + 4) mod 7 = 1" by (simp add: weekday_def)
  define k where "k = (m + 4) div 7"
  have "m + 4 = 7 * k + (m + 4) mod 7" by (simp add: k_def)
  with m1 have mk: "m = 7 * k - 3" by simp
  have "(localDay tz t0 + 3) div 7 = k"
    unfolding div7_eq_iff using a mk by simp
  moreover have "(localDay tz t + 3) div 7 = k"
    unfolding div7_eq_iff using b mk by simp
  ultimately show "weekIndex tz t = weekIndex tz t0" by (simp add: weekIndex_def)
qed

subsection \<open>The weekly count\<close>

lemma count_matches:
  "getWeeklyApartmentReservationsCount P rs p f d dt = length (filter (matches P p f d dt) rs)"
proof -
  have v: "\<And>t0. parsed P dt = Some t0 \<Longrightarrow> \<bar>t0\<bar> \<le> maxTime" by (rule parsed_valid)
  have e: "(date_ge a (startOfWeek (tzOffset P) (parsed P dt) 1) \<and>
            date_le a (endOfWeek (tzOffset P) (parsed P dt) 1) \<and> X)
         = (sameWeek (tzOffset P) a (parsed P dt) \<and> weekInRange (tzOffset P) (parsed P dt) \<and> X)"
    for a X
    using in_window [OF v, where a = a and tz = "tzOffset P"] by blast
  show ?thesis
    unfolding getWeeklyApartmentReservationsCount_def Let_def matches_def
    by (simp only: e)
qed

lemma countWeekly_matches:
  "weekInRange (tzOffset P) (parsed P dt) \<Longrightarrow>
   countWeekly P rs p f d dt = length (filter (matches P p f d dt) rs)"
  unfolding countWeekly_def matches_def sameUpToCase_def by simp

lemma matches_out_of_range:
  "\<not> weekInRange (tzOffset P) (parsed P dt) \<Longrightarrow> \<not> matches P p f d dt r"
  by (simp add: matches_def)

lemma count_countWeekly:
  "getWeeklyApartmentReservationsCount P rs p f d dt =
     (if weekInRange (tzOffset P) (parsed P dt) then countWeekly P rs p f d dt else 0)"
  by (simp add: count_matches countWeekly_matches matches_out_of_range)

lemma sameWeek_sym: "sameWeek tz a b = sameWeek tz b a"
  by (auto simp: sameWeek_def split: option.splits)

lemma sameWeek_trans: "sameWeek tz a b \<Longrightarrow> sameWeek tz b c \<Longrightarrow> sameWeek tz a c"
  by (auto simp: sameWeek_def split: option.splits)

lemma sameWeek_inRange: "sameWeek tz a b \<Longrightarrow> weekInRange tz a = weekInRange tz b"
  by (auto simp: sameWeek_def weekInRange_def split: option.splits)

lemma matches_same_key:
  assumes "matches P p f d dt r"
  shows "matches P p f d dt r' = matches P (portal r) (floor_r r) (door r) (date r) r'"
proof -
  from assms have s: "sameWeek (tzOffset P) (parsed P (date r)) (parsed P dt)"
    and w: "weekInRange (tzOffset P) (parsed P dt)"
    and u: "portal r = p" "floor_r r = f" "toUpperCase P (door r) = toUpperCase P d"
    by (simp_all add: matches_def)
  have w': "weekInRange (tzOffset P) (parsed P (date r))"
    using sameWeek_inRange [OF s] w by simp
  have "sameWeek (tzOffset P) (parsed P (date r')) (parsed P dt)
      = sameWeek (tzOffset P) (parsed P (date r')) (parsed P (date r))"
    using s sameWeek_sym sameWeek_trans by blast
  then show ?thesis by (simp add: matches_def w w' u)
qed

subsection \<open>The cases of the operations\<close>

lemma find_date_None:
  "(find (\<lambda>r. date r = dt) rs = None) = (dt \<notin> date ` set rs)"
  by (auto simp: find_None_iff)

lemma find_date_Some:
  "(\<exists>y. find (\<lambda>r. date r = dt) rs = Some y) = (dt \<in> date ` set rs)"
  using find_date_None [of dt rs] by (cases "find (\<lambda>r. date r = dt) rs") simp_all

lemmas find_date_iff = find_date_None find_date_Some

lemma emit_fields [simp]:
  "store (emit es s) = store s"
  "latest (emit es s) = latest s"
  "events (emit es s) = events s @ es"
  by (simp_all add: emit_def)

lemma setReservations_fields [simp]:
  "store (setReservations rs s) = store s"
  "reservations (latest (setReservations rs s)) = rs"
  "user (latest (setReservations rs s)) = user (latest s)"
  "events (setReservations rs s) = events s"
  by (simp_all add: setReservations_def)

lemma loadReservations_fst: "fst (loadReservations io s) = Inr ()"
  by (simp add: loadReservations_def)

lemma loadReservations_snd:
  "snd (loadReservations io s) =
     (if getDocs_ok io
      then emit [GetDocs True] (setReservations (store s) s)
      else emit [GetDocs False, Toast LoadFailed] s)"
  by (simp add: loadReservations_def)

lemma create_None:
  "user c = None \<Longrightarrow>
   createReservation P io c data s = (Inl Unauthenticated, emit [Toast LoginToReserve] s)"
  by (simp add: createReservation_def)

lemma create_dup:
  "user c = Some uid \<Longrightarrow> date data \<in> date ` set (reservations c) \<Longrightarrow>
   createReservation P io c data s =
     (Inl DateAlreadyReserved, emit [Toast (CreateFailed DateAlreadyReserved)] s)"
  by (simp add: createReservation_def find_date_iff)

lemma create_quota:
  "user c = Some uid \<Longrightarrow> date data \<notin> date ` set (reservations c) \<Longrightarrow>
   2 \<le> getWeeklyApartmentReservationsCount P (reservations c)
          (portal data) (floor_r data) (door data) (date data) \<Longrightarrow>
   createReservation P io c data s =
     (Inl WeeklyQuotaExceeded, emit [Toast (CreateFailed WeeklyQuotaExceeded)] s)"
  by (simp add: createReservation_def find_date_iff)

lemma create_store_fails:
  "user c = Some uid \<Longrightarrow> date data \<notin> date ` set (reservations c) \<Longrightarrow>
   getWeeklyApartmentReservationsCount P (reservations c)
          (portal data) (floor_r data) (door data) (date data) < 2 \<Longrightarrow>
   \<not> addDoc_ok io \<Longrightarrow>
   createReservation P io c data s =
     (Inl StoreError, emit [AddDoc False, Toast (CreateFailed StoreError)] s)"
  by (simp add: createReservation_def find_date_iff)

lemma create_commits:
  "user c = Some uid \<Longrightarrow> date data \<notin> date ` set (reservations c) \<Longrightarrow>
   getWeeklyApartmentReservationsCount P (reservations c)
          (portal data) (floor_r data) (door data) (date data) < 2 \<Longrightarrow>
   addDoc_ok io \<Longrightarrow>
   createReservation P io c data s =
     (Inr (), snd (loadReservations io
        (emit [AddDoc True] (s\<lparr>store := store s @ [reservationData data uid io]\<rparr>))))"
  by (simp add: createReservation_def find_date_iff Let_def)

lemma create_cases:
  obtains (unauth) "user c = None"
      "createReservation P io c data s = (Inl Unauthenticated, emit [Toast LoginToReserve] s)"
  | (dup) uid where "user c = Some uid" "date data \<in> date ` set (reservations c)"
      "createReservation P io c data s =
         (Inl DateAlreadyReserved, emit [Toast (CreateFailed DateAlreadyReserved)] s)"
  | (quota) uid where "user c = Some uid" "date data \<notin> date ` set (reservations c)"
      "2 \<le> getWeeklyApartmentReservationsCount P (reservations c)
          (portal data) (floor_r data) (door data) (date data)"
      "createReservation P io c data s =
         (Inl WeeklyQuotaExceeded, emit [Toast (CreateFailed WeeklyQuotaExceeded)] s)"
  | (fails) uid where "user c = Some uid" "date data \<notin> date ` set (reservations c)"
      "getWeeklyApartmentReservationsCount P (reservations c)
          (portal data) (floor_r data) (door data) (date data) < 2"
      "\<not> addDoc_ok io"
      "createReservation P io c data s =
         (Inl StoreError, emit [AddDoc False, Toast (CreateFailed StoreError)] s)"
  | (commits) uid where "user c = Some uid" "date data \<notin> date ` set (reservations c)"
      "getWeeklyApartmentReservationsCount P (reservations c)
          (portal data) (floor_r data) (door data) (date data) < 2"
      "addDoc_ok io"
      "createReservation P io c data s =
         (Inr (), snd (loadReservations io
            (emit [AddDoc True] (s\<lparr>store := store s @ [reservationData data uid io]\<rparr>))))"
proof (cases "user c")
  case None
  show ?thesis by (rule unauth [OF None create_None [OF None]])
next
  case (Some uid)
  show ?thesis
  proof (cases "date data \<in> date ` set (reservations c)")
    case True
    show ?thesis by (rule dup [OF Some True create_dup [OF Some True]])
  next
    case nodup: False
    show ?thesis
    proof (cases "2 \<le> getWeeklyApartmentReservationsCount P (reservations c)
          (portal data) (floor_r data) (door data) (date data)")
      case True
      show ?thesis by (rule quota [OF Some nodup True create_quota [OF Some nodup True]])
    next
      case False
      then have lt: "getWeeklyApartmentReservationsCount P (reservations c)
          (portal data) (floor_r data) (door data) (date data) < 2" by simp
      show ?thesis
      proof (cases "addDoc_ok io")
        case True
        show ?thesis by (rule commits [OF Some nodup lt True create_commits [OF Some nodup lt True]])
      next
        case False
        show ?thesis by (rule fails [OF Some nodup lt False create_store_fails [OF Some nodup lt False]])
      qed
    qed
  qed
qed

lemma cancel_None:
  "user c = None \<Longrightarrow> cancelReservation io c i s = (Inr (), emit [Toast LoginToCancel] s)"
  by (simp add: cancelReservation_def)

lemma cancel_missing:
  "user c = Some uid \<Longrightarrow> find (\<lambda>r. id_r r = i) (reservations c) = None \<Longrightarrow>
   cancelReservation io c i s = (Inr (), emit [Toast ReservationNotFound] s)"
  by (simp add: cancelReservation_def)

lemma cancel_foreign:
  "user c = Some uid \<Longrightarrow> find (\<lambda>r. id_r r = i) (reservations c) = Some r \<Longrightarrow>
   userId r \<noteq> uid \<Longrightarrow>
   cancelReservation io c i s = (Inr (), emit [Toast NotYourReservation] s)"
  by (simp add: cancelReservation_def)

lemma cancel_store_fails:
  "user c = Some uid \<Longrightarrow> find (\<lambda>r. id_r r = i) (reservations c) = Some r \<Longrightarrow>
   userId r = uid \<Longrightarrow> \<not> deleteDoc_ok io \<Longrightarrow>
   cancelReservation io c i s = (Inr (), emit [DeleteDoc i False, Toast CancelFailed] s)"
  by (simp add: cancelReservation_def)

lemma cancel_deletes:
  "user c = Some uid \<Longrightarrow> find (\<lambda>r. id_r r = i) (reservations c) = Some r \<Longrightarrow>
   userId r = uid \<Longrightarrow> deleteDoc_ok io \<Longrightarrow>
   cancelReservation io c i s =
     (Inr (), snd (loadReservations io
        (emit [DeleteDoc i True, Toast CancelSucceeded]
           (s\<lparr>store := filter (\<lambda>r. id_r r \<noteq> i) (store s)\<rparr>))))"
  by (simp add: cancelReservation_def Let_def)

lemma cancel_fst: "fst (cancelReservation io c i s) = Inr ()"
  by (simp add: cancelReservation_def Let_def split: option.splits)

lemma length_filter_rel:
  "list_all2 (\<lambda>a b. P a = Q b) xs ys \<Longrightarrow> length (filter P xs) = length (filter Q ys)"
  by (induction rule: list_all2_induct) auto

lemma cancel_cases:
  obtains (unauth) "user c = None" "\<not> canCancel c i"
      "cancelReservation io c i s = (Inr (), emit [Toast LoginToCancel] s)"
  | (missing) uid where "user c = Some uid" "find (\<lambda>r. id_r r = i) (reservations c) = None"
      "\<not> canCancel c i"
      "cancelReservation io c i s = (Inr (), emit [Toast ReservationNotFound] s)"
  | (foreign) uid r where "user c = Some uid" "find (\<lambda>r. id_r r = i) (reservations c) = Some r"
      "userId r \<noteq> uid" "\<not> canCancel c i"
      "cancelReservation io c i s = (Inr (), emit [Toast NotYourReservation] s)"
  | (fails) uid r where "user c = Some uid" "find (\<lambda>r. id_r r = i) (reservations c) = Some r"
      "userId r = uid" "canCancel c i" "\<not> deleteDoc_ok io"
      "cancelReservation io c i s = (Inr (), emit [DeleteDoc i False, Toast CancelFailed] s)"
  | (deletes) uid r where "user c = Some uid" "find (\<lambda>r. id_r r = i) (reservations c) = Some r"
      "userId r = uid" "canCancel c i" "deleteDoc_ok io"
      "cancelReservation io c i s =
         (Inr (), snd (loadReservations io
            (emit [DeleteDoc i True, Toast CancelSucceeded]
               (s\<lparr>store := filter (\<lambda>r. id_r r \<noteq> i) (store s)\<rparr>))))"
proof (cases "user c")
  case None
  then have n: "\<not> canCancel c i" by (simp add: canCancel_def)
  show ?thesis by (rule unauth [OF None n cancel_None [OF None]])
next
  case (Some uid)
  show ?thesis
  proof (cases "find (\<lambda>r. id_r r = i) (reservations c)")
    case None
    then have n: "\<not> canCancel c i" using Some by (simp add: canCancel_def)
    show ?thesis by (rule missing [OF Some None n cancel_missing [OF Some None]])
  next
    case found: (Some r)
    show ?thesis
    proof (cases "userId r = uid")
      case False
      then have n: "\<not> canCancel c i" using Some found by (simp add: canCancel_def)
      show ?thesis by (rule foreign [OF Some found False n cancel_foreign [OF Some found False]])
    next
      case True
      then have cc: "canCancel c i" using Some found by (simp add: canCancel_def)
      show ?thesis
      proof (cases "deleteDoc_ok io")
        case ok: True
        show ?thesis
          by (rule deletes [OF Some found True cc ok cancel_deletes [OF Some found True ok]])
      next
        case no: False
        show ?thesis
          by (rule fails [OF Some found True cc no cancel_store_fails [OF Some found True no]])
      qed
    qed
  qed
qed

subsection \<open>The invariants under one operation\<close>

lemma length_filter_subset:
  assumes "distinct xs" and "set xs \<subseteq> set ys"
  shows "length (filter P xs) \<le> length (filter P ys)"
proof -
  have "distinct (filter P xs)"
    using assms(1) by simp
  then have "length (filter P xs) = card (set (filter P xs))"
    by (rule distinct_card [symmetric])
  also have "\<dots> \<le> card (set (filter P ys))"
    using assms(2) by (intro card_mono) auto
  also have "\<dots> \<le> length (filter P ys)"
    by (rule card_length)
  finally show ?thesis .
qed

lemma length_filter_filter: "length (filter P (filter Q xs)) \<le> length (filter P xs)"
  by (induction xs) auto

text \<open>\<open>I2_inRange\<close> says that the count of the code is at most 2 for every unit and date.\<close>

lemma I2_inRange_count:
  "I2_inRange P rs = (\<forall>p f d dt. getWeeklyApartmentReservationsCount P rs p f d dt \<le> 2)"
  unfolding I2_inRange_def count_countWeekly by auto

lemma uniqueDateStrings_distinct: "uniqueDateStrings rs \<Longrightarrow> distinct rs"
  by (simp add: uniqueDateStrings_def distinct_map)

lemma uniqueDateStrings_filter: "uniqueDateStrings rs \<Longrightarrow> uniqueDateStrings (filter Q rs)"
  unfolding uniqueDateStrings_def by (rule distinct_map_filter)

lemma I2_inRange_filter: "I2_inRange P rs \<Longrightarrow> I2_inRange P (filter Q rs)"
  unfolding I2_inRange_count count_matches
  using length_filter_filter le_trans by blast

lemma uniqueDateStrings_append:
  assumes "uniqueDateStrings st" and "set st \<subseteq> set cache" and "date r \<notin> date ` set cache"
  shows "uniqueDateStrings (st @ [r])"
  using assms unfolding uniqueDateStrings_def by auto

lemma I2_inRange_append:
  assumes inv: "I2_inRange P st" and dist: "distinct st" and sub: "set st \<subseteq> set cache"
    and lt: "getWeeklyApartmentReservationsCount P cache
               (portal r) (floor_r r) (door r) (date r) < 2"
  shows "I2_inRange P (st @ [r])"
  unfolding I2_inRange_count count_matches
proof (intro allI)
  fix p f d dt
  show "length (filter (matches P p f d dt) (st @ [r])) \<le> 2"
  proof (cases "matches P p f d dt r")
    case True
    have "filter (matches P p f d dt) st =
          filter (matches P (portal r) (floor_r r) (door r) (date r)) st"
      by (rule filter_cong [OF refl]) (rule matches_same_key [OF True])
    then have "length (filter (matches P p f d dt) st)
                 \<le> length (filter (matches P (portal r) (floor_r r) (door r) (date r)) cache)"
      using length_filter_subset [OF dist sub] by simp
    also have "\<dots> < 2" using lt by (simp add: count_matches)
    finally show ?thesis using True by simp
  next
    case False
    then show ?thesis using inv by (simp add: I2_inRange_count count_matches)
  qed
qed

text \<open>I1 implies that the date strings are distinct.\<close>

lemma I1_uniqueDateStrings: "I1 P rs \<Longrightarrow> uniqueDateStrings rs"
  by (induction rs) (auto simp: uniqueDateStrings_def list_all_iff sameCalendarDate_def)

lemma I2_I2_inRange: "I2 P rs \<Longrightarrow> I2_inRange P rs"
  by (simp add: I2_def I2_inRange_def)

lemma step_keeps_invariants:
  assumes "set (store s) \<subseteq> set (reservations (latest s))"
    and "uniqueDateStrings (store s)" and "I2_inRange P (store s)"
    and "\<forall>io data. x = CreateReservation io data \<longrightarrow> c = latest s \<and> getDocs_ok io"
  shows "set (store (snd (step P x (c, s)))) \<subseteq> set (reservations (latest (snd (step P x (c, s))))) \<and>
         uniqueDateStrings (store (snd (step P x (c, s)))) \<and>
         I2_inRange P (store (snd (step P x (c, s))))"
proof (cases x)
  case Render
  then show ?thesis using assms by simp
next
  case (LoadReservations io)
  then show ?thesis using assms by (simp add: loadReservations_snd)
next
  case (AuthStateChanged u)
  then show ?thesis using assms by simp
next
  case (CancelReservation io i)
  show ?thesis
  proof (cases rule: cancel_cases [of c i io s])
    case (deletes uid r)
    have "set (filter (\<lambda>r. id_r r \<noteq> i) (store s)) \<subseteq> set (reservations (latest s))"
      using assms(1) by auto
    then show ?thesis
      using deletes assms(2,3) CancelReservation
      by (simp add: loadReservations_snd uniqueDateStrings_filter I2_inRange_filter)
  qed (use assms CancelReservation in simp_all)
next
  case (CreateReservation io data)
  with assms(4) have cl: "c = latest s" and g: "getDocs_ok io" by simp_all
  show ?thesis
  proof (cases rule: create_cases [of c P io data s])
    case (commits uid)
    let ?r = "reservationData data uid io"
    have f: "portal ?r = portal data" "floor_r ?r = floor_r data" "door ?r = door data"
      "date ?r = date data"
      by (simp_all add: reservationData_def)
    have sub: "set (store s) \<subseteq> set (reservations c)" using assms(1) cl by simp
    have a: "uniqueDateStrings (store s @ [?r])"
      using uniqueDateStrings_append [OF assms(2) sub] commits(2) f by simp
    have b: "I2_inRange P (store s @ [?r])"
      using I2_inRange_append [OF assms(3) uniqueDateStrings_distinct [OF assms(2)] sub]
        commits(3) f by simp
    show ?thesis
      using commits(5) a b g CreateReservation by (simp add: loadReservations_snd)
  qed (use assms CreateReservation in simp_all)
qed

lemma run_keeps_invariants:
  assumes "disciplined fresh ops" and "fresh \<longrightarrow> c = latest s"
    and "set (store s) \<subseteq> set (reservations (latest s))"
    and "uniqueDateStrings (store s)" and "I2_inRange P (store s)"
  shows "uniqueDateStrings (store (snd (run P ops (c, s)))) \<and>
         I2_inRange P (store (snd (run P ops (c, s))))"
  using assms
proof (induction ops arbitrary: fresh c s)
  case Nil
  then show ?case by simp
next
  case (Cons x xs)
  have cr: "\<forall>io data. x = CreateReservation io data \<longrightarrow> c = latest s \<and> getDocs_ok io"
    using Cons.prems(1,2) by auto
  note inv = step_keeps_invariants [OF Cons.prems(3-5) cr]
  obtain c' s' where st: "step P x (c, s) = (c', s')" by (cases "step P x (c, s)")
  from inv st have inv': "set (store s') \<subseteq> set (reservations (latest s'))"
    "uniqueDateStrings (store s')" "I2_inRange P (store s')" by simp_all
  show ?case
  proof (cases x)
    case Render
    then have "disciplined True xs" "True \<longrightarrow> c' = latest s'"
      using Cons.prems(1) st by auto
    from Cons.IH [OF this inv'] show ?thesis by (simp add: st)
  next
    case (LoadReservations io)
    then have "disciplined False xs" "False \<longrightarrow> c' = latest s'"
      using Cons.prems(1) by auto
    from Cons.IH [OF this inv'] show ?thesis by (simp add: st)
  next
    case (CreateReservation io data)
    then have "disciplined False xs" "False \<longrightarrow> c' = latest s'"
      using Cons.prems(1) by auto
    from Cons.IH [OF this inv'] show ?thesis by (simp add: st)
  next
    case (CancelReservation io i)
    then have "disciplined False xs" "False \<longrightarrow> c' = latest s'"
      using Cons.prems(1) by auto
    from Cons.IH [OF this inv'] show ?thesis by (simp add: st)
  next
    case (AuthStateChanged u)
    then have "disciplined False xs" "False \<longrightarrow> c' = latest s'"
      using Cons.prems(1) by auto
    from Cons.IH [OF this inv'] show ?thesis by (simp add: st)
  qed
qed



section \<open>The claims\<close>

text \<open>
  C1, as the code has it. Take a state whose cached view holds every stored
  reservation and whose store has no two reservations with the same date string and,
  for every unit and every week within the range of time values, at most 2
  reservations of the unit in the week. Take a sequence of steps (renders, creates,
  cancels, refreshes, changes of the signed-in user, run one after the other) in
  which every create is called through the function of a render made after the last
  change of the state, and the refresh of every create succeeds. Then after the
  sequence the store has the two properties again: no two reservations have the same
  date string, and for every unit (portal, floor, door up to letter case) and every
  Monday-to-Sunday week within the range of time values the number of the unit's
  reservations in the week is at most 2. The two properties follow from I1 and I2.
\<close>

theorem invariants_preserved:
  assumes "set (store s) \<subseteq> set (reservations (latest s))"
    and "uniqueDateStrings (store s)" and "I2_inRange P (store s)"
    and "disciplined False ops"
  shows "uniqueDateStrings (store (snd (run P ops (c, s)))) \<and>
         I2_inRange P (store (snd (run P ops (c, s)))) \<and>
         (I1 P (store s) \<longrightarrow> uniqueDateStrings (store s)) \<and>
         (I2 P (store s) \<longrightarrow> I2_inRange P (store s))"
  using run_keeps_invariants [OF assms(4) _ assms(1-3), of c] I1_uniqueDateStrings [of P "store s"]
    I2_I2_inRange [of P "store s"]
  by simp

theorem invariants_preserved_example:
  "uniqueDateStrings (store (snd (run utc
      [Render,
       CreateReservation (outcome True True True ''r1'') (request ''P1'' ''2'' ''A'' ''2024-01-01''),
       Render,
       CreateReservation (outcome True True True ''r2'') (request ''P1'' ''2'' ''a'' ''2024-01-03''),
       Render,
       CreateReservation (outcome True True True ''r3'') (request ''P1'' ''2'' ''A'' ''2024-01-05''),
       Render,
       CreateReservation (outcome True True True ''r4'') (request ''P2'' ''1'' ''B'' ''2024-01-03''),
       CancelReservation (outcome False True True ''n'') ''r1'',
       AuthStateChanged (Some ''y''),
       Render,
       CreateReservation (outcome True True True ''r5'') (request ''P1'' ''2'' ''A'' ''2024-01-05''),
       LoadReservations (outcome True True True ''n''),
       Render,
       CreateReservation (outcome True True True ''r6'') (request ''P1'' ''2'' ''A'' ''2024-01-05'')]
      (view (Some ''x'') [], session (Some ''x'') [])))) \<and>
   I2_inRange utc (store (snd (run utc
      [Render,
       CreateReservation (outcome True True True ''r1'') (request ''P1'' ''2'' ''A'' ''2024-01-01''),
       Render,
       CreateReservation (outcome True True True ''r2'') (request ''P1'' ''2'' ''a'' ''2024-01-03''),
       Render,
       CreateReservation (outcome True True True ''r3'') (request ''P1'' ''2'' ''A'' ''2024-01-05''),
       Render,
       CreateReservation (outcome True True True ''r4'') (request ''P2'' ''1'' ''B'' ''2024-01-03''),
       CancelReservation (outcome False True True ''n'') ''r1'',
       AuthStateChanged (Some ''y''),
       Render,
       CreateReservation (outcome True True True ''r5'') (request ''P1'' ''2'' ''A'' ''2024-01-05''),
       LoadReservations (outcome True True True ''n''),
       Render,
       CreateReservation (outcome True True True ''r6'') (request ''P1'' ''2'' ''A'' ''2024-01-05'')]
      (view (Some ''x'') [], session (Some ''x'') [])))) \<and>
   map id_r (store (snd (run utc
      [Render,
       CreateReservation (outcome True True True ''r1'') (request ''P1'' ''2'' ''A'' ''2024-01-01''),
       Render,
       CreateReservation (outcome True True True ''r2'') (request ''P1'' ''2'' ''a'' ''2024-01-03''),
       Render,
       CreateReservation (outcome True True True ''r3'') (request ''P1'' ''2'' ''A'' ''2024-01-05''),
       Render,
       CreateReservation (outcome True True True ''r4'') (request ''P2'' ''1'' ''B'' ''2024-01-03''),
       CancelReservation (outcome False True True ''n'') ''r1'',
       AuthStateChanged (Some ''y''),
       Render,
       CreateReservation (outcome True True True ''r5'') (request ''P1'' ''2'' ''A'' ''2024-01-05''),
       LoadReservations (outcome True True True ''n''),
       Render,
       CreateReservation (outcome True True True ''r6'') (request ''P1'' ''2'' ''A'' ''2024-01-05'')]
      (view (Some ''x'') [], session (Some ''x'') [])))) = [''r2'', ''r6'']"
proof -
  let ?ops = "[Render,
       CreateReservation (outcome True True True ''r1'') (request ''P1'' ''2'' ''A'' ''2024-01-01''),
       Render,
       CreateReservation (outcome True True True ''r2'') (request ''P1'' ''2'' ''a'' ''2024-01-03''),
       Render,
       CreateReservation (outcome True True True ''r3'') (request ''P1'' ''2'' ''A'' ''2024-01-05''),
       Render,
       CreateReservation (outcome True True True ''r4'') (request ''P2'' ''1'' ''B'' ''2024-01-03''),
       CancelReservation (outcome False True True ''n'') ''r1'',
       AuthStateChanged (Some ''y''),
       Render,
       CreateReservation (outcome True True True ''r5'') (request ''P1'' ''2'' ''A'' ''2024-01-05''),
       LoadReservations (outcome True True True ''n''),
       Render,
       CreateReservation (outcome True True True ''r6'') (request ''P1'' ''2'' ''A'' ''2024-01-05'')]"
  let ?s = "session (Some ''x'') []"
  let ?c = "view (Some ''x'') []"
  have h1: "set (store ?s) \<subseteq> set (reservations (latest ?s))" by (simp add: session_def)
  have h2: "uniqueDateStrings (store ?s)" by (simp add: session_def uniqueDateStrings_def)
  have h3: "I2_inRange utc (store ?s)" by (simp add: session_def I2_inRange_def countWeekly_def)
  have h4: "disciplined False ?ops" by (simp add: outcome_def)
  have e: "map id_r (store (snd (run utc ?ops (?c, ?s)))) = [''r2'', ''r6'']" by code_simp
  from invariants_preserved [OF h1 h2 h3 h4, of ?c]
  have "uniqueDateStrings (store (snd (run utc ?ops (?c, ?s))))"
    "I2_inRange utc (store (snd (run utc ?ops (?c, ?s))))" by blast+
  with e show ?thesis by blast
qed

text \<open>
  C1 as stated fails, from the empty reservation set and with successful operations
  only: (1) a create whose refresh fails and a second create for the same date leave
  two reservations of one date string; (2) so do two creates called through the
  functions of one render, with every refresh succeeding; (3) two creates for the
  two spellings \<open>2024-02-10\<close> and \<open>20240210\<close> of one calendar date are both accepted;
  (4) three creates of one unit in the last week of the range of time values, whose
  Sunday is beyond the range, are all accepted.
\<close>

theorem invariants_broken:
  "I1 utc (store (session (Some ''x'') [])) \<and>
   I2 utc (store (session (Some ''x'') [])) \<and>
   \<not> uniqueDateStrings (store (snd (run utc
      [Render,
       CreateReservation (outcome False True True ''r1'') (request ''P1'' ''2'' ''A'' ''2024-02-10''),
       Render,
       CreateReservation (outcome True True True ''r2'') (request ''P1'' ''2'' ''A'' ''2024-02-10'')]
      (view (Some ''x'') [], session (Some ''x'') [])))) \<and>
   \<not> uniqueDateStrings (store (snd (run utc
      [Render,
       CreateReservation (outcome True True True ''r1'') (request ''P1'' ''2'' ''A'' ''2024-02-10''),
       CreateReservation (outcome True True True ''r2'') (request ''P1'' ''2'' ''A'' ''2024-02-10'')]
      (view (Some ''x'') [], session (Some ''x'') [])))) \<and>
   map date (store (snd (run utc
      [Render,
       CreateReservation (outcome True True True ''r1'') (request ''P1'' ''2'' ''A'' ''2024-02-10''),
       Render,
       CreateReservation (outcome True True True ''r2'') (request ''P4'' ''3'' ''C'' ''20240210'')]
      (view (Some ''x'') [], session (Some ''x'') []))))
     = [''2024-02-10'', ''20240210''] \<and>
   \<not> I1 utc (store (snd (run utc
      [Render,
       CreateReservation (outcome True True True ''r1'') (request ''P1'' ''2'' ''A'' ''2024-02-10''),
       Render,
       CreateReservation (outcome True True True ''r2'') (request ''P4'' ''3'' ''C'' ''20240210'')]
      (view (Some ''x'') [], session (Some ''x'') [])))) \<and>
   \<not> I2 utc (store (snd (run utc
      [Render,
       CreateReservation (outcome True True True ''r1'') (request ''P1'' ''2'' ''A'' ''+275760-09-08''),
       Render,
       CreateReservation (outcome True True True ''r2'') (request ''P1'' ''2'' ''A'' ''+275760-09-09''),
       Render,
       CreateReservation (outcome True True True ''r3'') (request ''P1'' ''2'' ''A'' ''+275760-09-10'')]
      (view (Some ''x'') [], session (Some ''x'') []))))"
proof -
  let ?edge = "store (snd (run utc
      [Render,
       CreateReservation (outcome True True True ''r1'') (request ''P1'' ''2'' ''A'' ''+275760-09-08''),
       Render,
       CreateReservation (outcome True True True ''r2'') (request ''P1'' ''2'' ''A'' ''+275760-09-09''),
       Render,
       CreateReservation (outcome True True True ''r3'') (request ''P1'' ''2'' ''A'' ''+275760-09-10'')]
      (view (Some ''x'') [], session (Some ''x'') [])))"
  have a: "I1 utc (store (session (Some ''x'') []))" by (simp add: session_def)
  have b: "I2 utc (store (session (Some ''x'') []))"
    by (simp add: session_def I2_def countWeekly_def)
  have c: "\<not> uniqueDateStrings (store (snd (run utc
      [Render,
       CreateReservation (outcome False True True ''r1'') (request ''P1'' ''2'' ''A'' ''2024-02-10''),
       Render,
       CreateReservation (outcome True True True ''r2'') (request ''P1'' ''2'' ''A'' ''2024-02-10'')]
      (view (Some ''x'') [], session (Some ''x'') []))))"
    by code_simp
  have d: "\<not> uniqueDateStrings (store (snd (run utc
      [Render,
       CreateReservation (outcome True True True ''r1'') (request ''P1'' ''2'' ''A'' ''2024-02-10''),
       CreateReservation (outcome True True True ''r2'') (request ''P1'' ''2'' ''A'' ''2024-02-10'')]
      (view (Some ''x'') [], session (Some ''x'') []))))"
    by code_simp
  have e: "map date (store (snd (run utc
      [Render,
       CreateReservation (outcome True True True ''r1'') (request ''P1'' ''2'' ''A'' ''2024-02-10''),
       Render,
       CreateReservation (outcome True True True ''r2'') (request ''P4'' ''3'' ''C'' ''20240210'')]
      (view (Some ''x'') [], session (Some ''x'') []))))
     = [''2024-02-10'', ''20240210'']"
    by code_simp
  have f: "\<not> I1 utc (store (snd (run utc
      [Render,
       CreateReservation (outcome True True True ''r1'') (request ''P1'' ''2'' ''A'' ''2024-02-10''),
       Render,
       CreateReservation (outcome True True True ''r2'') (request ''P4'' ''3'' ''C'' ''20240210'')]
      (view (Some ''x'') [], session (Some ''x'') []))))"
    by code_simp
  have cnt: "countWeekly utc ?edge ''P1'' ''2'' ''A'' ''+275760-09-08'' = 3" by code_simp
  have g: "\<not> I2 utc ?edge"
  proof
    assume "I2 utc ?edge"
    then have "countWeekly utc ?edge ''P1'' ''2'' ''A'' ''+275760-09-08'' \<le> 2"
      unfolding I2_def by (elim allE)
    with cnt show False by simp
  qed
  show ?thesis using a b c d e f g by blast
qed

text \<open>
  C2, as the code has it. For every reservation list and every portal, floor, door
  and date: when the Monday-to-Sunday week of the target date lies within the range
  of time values, the weekly count of the code is the number of reservations whose
  date lies in that week, whose portal and floor equal the arguments and whose door
  equals the door argument up to letter case; otherwise (the date does not parse, or
  its week reaches beyond the range) the count is 0. Two instants are in the same
  week exactly when their local days lie from one Monday to the Sunday after it. The
  example after the theorem has a reservation on the Monday and one on the Sunday of
  the week, both counted, and one on the Monday after, not counted.
\<close>

theorem weekly_count_is_countWeekly:
  "getWeeklyApartmentReservationsCount P rs p f d dt =
     (if weekInRange (tzOffset P) (parsed P dt) then countWeekly P rs p f d dt else 0) \<and>
   (sameWeek tz (Some t) (Some t0) =
      (\<exists>m. weekday m = 1 \<and>
           m \<le> localDay tz t0 \<and> localDay tz t0 \<le> m + 6 \<and>
           m \<le> localDay tz t \<and> localDay tz t \<le> m + 6))"
  using count_countWeekly [of P rs p f d dt] sameWeek_Monday [of tz t t0]
  by (simp add: sameWeek_def)

theorem weekly_count_week_boundary:
  "weekInRange (tzOffset utc) (parsed utc ''2024-01-03'') \<and>
   getWeeklyApartmentReservationsCount utc
     [reservation ''r1'' ''u1'' ''P1'' ''2'' ''A'' ''2024-01-01'',
      reservation ''r2'' ''u2'' ''P1'' ''2'' ''a'' ''2024-01-07'',
      reservation ''r3'' ''u1'' ''P1'' ''2'' ''A'' ''2024-01-08'',
      reservation ''r4'' ''u3'' ''P2'' ''2'' ''A'' ''2024-01-02'']
     ''P1'' ''2'' ''A'' ''2024-01-03'' = 2 \<and>
   getWeeklyApartmentReservationsCount utc
     [reservation ''r1'' ''u1'' ''P1'' ''2'' ''A'' ''2024-01-01'']
     ''P1'' ''2'' ''A'' ''2024-01-03'' = 1 \<and>
   getWeeklyApartmentReservationsCount utc
     [reservation ''r2'' ''u2'' ''P1'' ''2'' ''a'' ''2024-01-07'']
     ''P1'' ''2'' ''A'' ''2024-01-03'' = 1 \<and>
   getWeeklyApartmentReservationsCount utc
     [reservation ''r3'' ''u1'' ''P1'' ''2'' ''A'' ''2024-01-08'']
     ''P1'' ''2'' ''A'' ''2024-01-03'' = 0 \<and>
   getDay 0 (the (parsed utc ''2024-01-01'')) = 1 \<and>
   getDay 0 (the (parsed utc ''2024-01-07'')) = 0 \<and>
   getDay 0 (the (parsed utc ''2024-01-08'')) = 1"
proof -
  have r: "weekInRange (tzOffset utc) (parsed utc ''2024-01-03'')" by code_simp
  have a: "countWeekly utc
     [reservation ''r1'' ''u1'' ''P1'' ''2'' ''A'' ''2024-01-01'',
      reservation ''r2'' ''u2'' ''P1'' ''2'' ''a'' ''2024-01-07'',
      reservation ''r3'' ''u1'' ''P1'' ''2'' ''A'' ''2024-01-08'',
      reservation ''r4'' ''u3'' ''P2'' ''2'' ''A'' ''2024-01-02'']
     ''P1'' ''2'' ''A'' ''2024-01-03'' = 2" by code_simp
  have b: "countWeekly utc
     [reservation ''r1'' ''u1'' ''P1'' ''2'' ''A'' ''2024-01-01'']
     ''P1'' ''2'' ''A'' ''2024-01-03'' = 1" by code_simp
  have c: "countWeekly utc
     [reservation ''r2'' ''u2'' ''P1'' ''2'' ''a'' ''2024-01-07'']
     ''P1'' ''2'' ''A'' ''2024-01-03'' = 1" by code_simp
  have d: "countWeekly utc
     [reservation ''r3'' ''u1'' ''P1'' ''2'' ''A'' ''2024-01-08'']
     ''P1'' ''2'' ''A'' ''2024-01-03'' = 0" by code_simp
  have e: "getDay 0 (the (parsed utc ''2024-01-01'')) = 1"
    "getDay 0 (the (parsed utc ''2024-01-07'')) = 0"
    "getDay 0 (the (parsed utc ''2024-01-08'')) = 1" by code_simp+
  show ?thesis
    using r a b c d e
    by (simp only: weekly_count_is_countWeekly [THEN conjunct1] simp_thms if_True)
qed

text \<open>
  C2 as stated fails at the end of the range of time values: with the local zone
  UTC, \<open>+275760-09-13\<close> is the last instant of the range, a Saturday; the end of its
  week is an Invalid Date, and a reservation of that very date is not counted.
\<close>

theorem weekly_count_at_the_last_week:
  "parsed utc ''+275760-09-13'' = Some maxTime \<and>
   getDay 0 maxTime = 6 \<and>
   endOfWeek 0 (parsed utc ''+275760-09-13'') 1 = None \<and>
   getWeeklyApartmentReservationsCount utc
     [reservation ''r1'' ''u1'' ''P1'' ''2'' ''A'' ''+275760-09-13'']
     ''P1'' ''2'' ''A'' ''+275760-09-13'' = 0 \<and>
   countWeekly utc
     [reservation ''r1'' ''u1'' ''P1'' ''2'' ''A'' ''+275760-09-13'']
     ''P1'' ''2'' ''A'' ''+275760-09-13'' = 1"
  by code_simp

text \<open>
  C3, as the code has it. For a signed-in user, if a reservation of the view that the
  called function reads has the same date string as the request, \<open>createReservation\<close>
  fails with \<open>DateAlreadyReserved\<close> and changes nothing but the toasts, whatever the
  unit, the user and the weekly count are (the uniqueness check comes first). After
  an accepted create whose refresh succeeded, a create for the same date string, by
  any user and for any unit, called through the function of a render that reads the
  refreshed view, fails with \<open>DateAlreadyReserved\<close>. The example is scenario B.
\<close>

theorem reserved_date_rejected:
  "(user c = Some uid \<and> r \<in> set (reservations c) \<and> date r = date data \<longrightarrow>
      createReservation P io c data s =
        (Inl DateAlreadyReserved, emit [Toast (CreateFailed DateAlreadyReserved)] s)) \<and>
   (fst (createReservation P io c data s) = Inr () \<and> getDocs_ok io \<and>
    date data' = date data \<and> user c' = Some uid' \<and>
    reservations c' = reservations (latest (snd (createReservation P io c data s))) \<longrightarrow>
      fst (createReservation P io' c' data' (snd (createReservation P io c data s)))
        = Inl DateAlreadyReserved)"
proof (intro conjI impI)
  assume "user c = Some uid \<and> r \<in> set (reservations c) \<and> date r = date data"
  then show "createReservation P io c data s =
        (Inl DateAlreadyReserved, emit [Toast (CreateFailed DateAlreadyReserved)] s)"
    using create_dup [of c uid data P io s] by (metis imageI)
next
  let ?s' = "snd (createReservation P io c data s)"
  assume h: "fst (createReservation P io c data s) = Inr () \<and> getDocs_ok io \<and>
    date data' = date data \<and> user c' = Some uid' \<and>
    reservations c' = reservations (latest ?s')"
  have "date data \<in> date ` set (reservations (latest ?s'))"
  proof (cases rule: create_cases [of c P io data s])
    case (commits uid)
    have "date (reservationData data uid io) = date data" by (simp add: reservationData_def)
    then show ?thesis using commits h by (simp add: loadReservations_snd image_iff)
  qed (use h in simp_all)
  then have "date data' \<in> date ` set (reservations c')" using h by simp
  moreover have "user c' = Some uid'" using h by simp
  ultimately show "fst (createReservation P io' c' data' ?s') = Inl DateAlreadyReserved"
    using create_dup [of c' uid' data' P io' ?s'] by simp
qed

theorem reserved_date_scenario_B:
  "fst (createReservation utc (outcome True True True ''r1'') (view (Some ''x'') [])
          (request ''P1'' ''2'' ''A'' ''2024-02-10'') (session (Some ''x'') [])) = Inr () \<and>
   fst (createReservation utc (outcome True True True ''r2'')
          (view (Some ''y'') (reservations (latest
             (snd (createReservation utc (outcome True True True ''r1'') (view (Some ''x'') [])
                    (request ''P1'' ''2'' ''A'' ''2024-02-10'') (session (Some ''x'') []))))))
          (request ''P4'' ''3'' ''C'' ''2024-02-10'')
          (snd (createReservation utc (outcome True True True ''r1'') (view (Some ''x'') [])
                 (request ''P1'' ''2'' ''A'' ''2024-02-10'') (session (Some ''x'') []))))
     = Inl DateAlreadyReserved \<and>
   createReservation utc (outcome True True True ''r3'')
          (view (Some ''x'')
             [reservation ''r0'' ''y'' ''P1'' ''2'' ''A'' ''2024-01-01'',
              reservation ''r1'' ''y'' ''P1'' ''2'' ''A'' ''2024-01-03'',
              reservation ''r2'' ''z'' ''P4'' ''3'' ''C'' ''2024-01-05''])
          (request ''P1'' ''2'' ''A'' ''2024-01-05'')
          (session (Some ''x'') [])
     = (Inl DateAlreadyReserved,
        emit [Toast (CreateFailed DateAlreadyReserved)] (session (Some ''x'') []))"
proof -
  let ?io = "outcome True True True ''r1''"
  let ?d = "request ''P1'' ''2'' ''A'' ''2024-02-10''"
  let ?c = "view (Some ''x'') []"
  let ?s = "session (Some ''x'') []"
  let ?s' = "snd (createReservation utc ?io ?c ?d ?s)"
  let ?c' = "view (Some ''y'') (reservations (latest ?s'))"
  let ?t = "view (Some ''x'')
             [reservation ''r0'' ''y'' ''P1'' ''2'' ''A'' ''2024-01-01'',
              reservation ''r1'' ''y'' ''P1'' ''2'' ''A'' ''2024-01-03'',
              reservation ''r2'' ''z'' ''P4'' ''3'' ''C'' ''2024-01-05'']"
  have a: "fst (createReservation utc ?io ?c ?d ?s) = Inr ()" by code_simp
  have g: "getDocs_ok ?io" by (simp add: outcome_def)
  have e: "date (request ''P4'' ''3'' ''C'' ''2024-02-10'') = date ?d" by (simp add: request_def)
  have v: "user ?c' = Some ''y''" "reservations ?c' = reservations (latest ?s')"
    by (simp_all add: view_def)
  have h: "user ?t = Some ''x'' \<and>
           reservation ''r2'' ''z'' ''P4'' ''3'' ''C'' ''2024-01-05'' \<in> set (reservations ?t) \<and>
           date (reservation ''r2'' ''z'' ''P4'' ''3'' ''C'' ''2024-01-05'')
             = date (request ''P1'' ''2'' ''A'' ''2024-01-05'')"
    by (simp add: view_def reservation_def request_def)
  have t1: "fst (createReservation utc (outcome True True True ''r2'') ?c'
               (request ''P4'' ''3'' ''C'' ''2024-02-10'') ?s') = Inl DateAlreadyReserved"
    using reserved_date_rejected [where P = utc and io = ?io and c = ?c and data = ?d and s = ?s
        and data' = "request ''P4'' ''3'' ''C'' ''2024-02-10''" and c' = ?c' and uid' = "''y''"
        and io' = "outcome True True True ''r2''"] a g e v
    by blast
  have t2: "createReservation utc (outcome True True True ''r3'') ?t
               (request ''P1'' ''2'' ''A'' ''2024-01-05'') ?s
            = (Inl DateAlreadyReserved, emit [Toast (CreateFailed DateAlreadyReserved)] ?s)"
    using reserved_date_rejected [where P = utc and io = "outcome True True True ''r3''"
        and c = ?t and uid = "''x''" and r = "reservation ''r2'' ''z'' ''P4'' ''3'' ''C'' ''2024-01-05''"
        and data = "request ''P1'' ''2'' ''A'' ''2024-01-05''" and s = ?s] h
    by blast
  show ?thesis using a t1 t2 by blast
qed

text \<open>
  C3 as stated fails: (1) when the refresh after an accepted create fails, the retry
  for the same date is accepted too; (2) when the refresh succeeds but the retry is
  called through the function of the render that made the first call, it is
  accepted too and the store holds the date twice; (3) a request for \<open>20240210\<close> is
  accepted although a reservation for the same calendar date, written \<open>2024-02-10\<close>,
  is in the view.
\<close>

theorem retry_accepted_twice:
  "fst (createReservation utc (outcome False True True ''r1'') (view (Some ''x'') [])
          (request ''P1'' ''2'' ''A'' ''2024-02-10'') (session (Some ''x'') [])) = Inr () \<and>
   fst (createReservation utc (outcome True True True ''r2'')
          (latest (snd (createReservation utc (outcome False True True ''r1'') (view (Some ''x'') [])
                 (request ''P1'' ''2'' ''A'' ''2024-02-10'') (session (Some ''x'') []))))
          (request ''P1'' ''2'' ''A'' ''2024-02-10'')
          (snd (createReservation utc (outcome False True True ''r1'') (view (Some ''x'') [])
                 (request ''P1'' ''2'' ''A'' ''2024-02-10'') (session (Some ''x'') []))))
     = Inr () \<and>
   fst (createReservation utc (outcome True True True ''r1'') (view (Some ''x'') [])
          (request ''P1'' ''2'' ''A'' ''2024-02-10'') (session (Some ''x'') [])) = Inr () \<and>
   reservations (latest (snd (createReservation utc (outcome True True True ''r1'')
          (view (Some ''x'') [])
          (request ''P1'' ''2'' ''A'' ''2024-02-10'') (session (Some ''x'') []))))
     = [reservation ''r1'' ''x'' ''P1'' ''2'' ''A'' ''2024-02-10''] \<and>
   fst (createReservation utc (outcome True True True ''r2'') (view (Some ''x'') [])
          (request ''P1'' ''2'' ''A'' ''2024-02-10'')
          (snd (createReservation utc (outcome True True True ''r1'') (view (Some ''x'') [])
                 (request ''P1'' ''2'' ''A'' ''2024-02-10'') (session (Some ''x'') []))))
     = Inr () \<and>
   map date (store (snd (createReservation utc (outcome True True True ''r2'') (view (Some ''x'') [])
          (request ''P1'' ''2'' ''A'' ''2024-02-10'')
          (snd (createReservation utc (outcome True True True ''r1'') (view (Some ''x'') [])
                 (request ''P1'' ''2'' ''A'' ''2024-02-10'') (session (Some ''x'') []))))))
     = [''2024-02-10'', ''2024-02-10''] \<and>
   sameCalendarDate utc ''2024-02-10'' ''20240210'' \<and>
   fst (createReservation utc (outcome True True True ''r2'')
          (view (Some ''x'') [reservation ''r1'' ''y'' ''P1'' ''2'' ''A'' ''2024-02-10''])
          (request ''P4'' ''3'' ''C'' ''20240210'')
          (session (Some ''x'') [reservation ''r1'' ''y'' ''P1'' ''2'' ''A'' ''2024-02-10'']))
     = Inr ()"
  by code_simp



text \<open>
  C5, as the code has it. \<open>cancelReservation\<close> always returns normally to its caller.
  It changes the store only if a user is signed in, the view has a reservation of
  the given id and that reservation's \<open>userId\<close> is the user's id; in that case, when
  \<open>deleteDoc\<close> succeeds, the records of that id are removed. Otherwise the store and
  the view are unchanged and the rejection is shown as one toast: the sign-in
  request without a user, 'Reserva no encontrada' for an id not in the view, 'Solo
  puedes cancelar tus propias reservas' for a reservation of another user. The
  example is scenario C: user y cannot cancel the reservation of user x, user x can.
\<close>

theorem cancel_needs_owner:
  "fst (cancelReservation io c i s) = Inr () \<and>
   (store (snd (cancelReservation io c i s)) \<noteq> store s \<longrightarrow> canCancel c i \<and> deleteDoc_ok io) \<and>
   (canCancel c i \<and> deleteDoc_ok io \<longrightarrow>
      store (snd (cancelReservation io c i s)) = filter (\<lambda>r. id_r r \<noteq> i) (store s)) \<and>
   (\<not> canCancel c i \<longrightarrow>
      store (snd (cancelReservation io c i s)) = store s \<and>
      latest (snd (cancelReservation io c i s)) = latest s \<and>
      events (snd (cancelReservation io c i s)) = events s @
        [Toast (case user c of
                  None \<Rightarrow> LoginToCancel
                | Some uid \<Rightarrow>
                    (case find (\<lambda>r. id_r r = i) (reservations c) of
                       None \<Rightarrow> ReservationNotFound
                     | Some r \<Rightarrow> NotYourReservation))])"
proof (cases rule: cancel_cases [of c i io s])
  case unauth
  then show ?thesis by simp
next
  case (missing uid)
  then show ?thesis by simp
next
  case (foreign uid r)
  then show ?thesis by simp
next
  case (fails uid r)
  then show ?thesis by simp
next
  case (deletes uid r)
  then show ?thesis by (simp add: loadReservations_snd)
qed

theorem cancel_scenario_C:
  "canCancel (view (Some ''x'') [reservation ''r1'' ''x'' ''P1'' ''2'' ''A'' ''2024-01-01'']) ''r1'' \<and>
   \<not> canCancel (view (Some ''y'') [reservation ''r1'' ''x'' ''P1'' ''2'' ''A'' ''2024-01-01'']) ''r1'' \<and>
   store (snd (cancelReservation (outcome True True True ''n'')
     (view (Some ''x'') [reservation ''r1'' ''x'' ''P1'' ''2'' ''A'' ''2024-01-01'']) ''r1''
     (session (Some ''x'') [reservation ''r1'' ''x'' ''P1'' ''2'' ''A'' ''2024-01-01'']))) = [] \<and>
   store (snd (cancelReservation (outcome True True True ''n'')
     (view (Some ''y'') [reservation ''r1'' ''x'' ''P1'' ''2'' ''A'' ''2024-01-01'']) ''r1''
     (session (Some ''y'') [reservation ''r1'' ''x'' ''P1'' ''2'' ''A'' ''2024-01-01''])))
     = [reservation ''r1'' ''x'' ''P1'' ''2'' ''A'' ''2024-01-01''] \<and>
   events (snd (cancelReservation (outcome True True True ''n'')
     (view (Some ''y'') [reservation ''r1'' ''x'' ''P1'' ''2'' ''A'' ''2024-01-01'']) ''r1''
     (session (Some ''y'') [reservation ''r1'' ''x'' ''P1'' ''2'' ''A'' ''2024-01-01''])))
     = [Toast NotYourReservation]"
proof -
  let ?r = "reservation ''r1'' ''x'' ''P1'' ''2'' ''A'' ''2024-01-01''"
  let ?io = "outcome True True True ''n''"
  let ?cx = "view (Some ''x'') [?r]"
  let ?cy = "view (Some ''y'') [?r]"
  let ?sx = "session (Some ''x'') [?r]"
  let ?sy = "session (Some ''y'') [?r]"
  have x: "canCancel ?cx ''r1''"
    by (simp add: canCancel_def view_def reservation_def)
  have y: "\<not> canCancel ?cy ''r1''"
    by (simp add: canCancel_def view_def reservation_def)
  have ok: "deleteDoc_ok ?io" by (simp add: outcome_def)
  have a: "store (snd (cancelReservation ?io ?cx ''r1'' ?sx)) = []"
  proof -
    from cancel_needs_owner [of ?io ?cx "''r1''" ?sx] x ok
    have "store (snd (cancelReservation ?io ?cx ''r1'' ?sx))
            = filter (\<lambda>r. id_r r \<noteq> ''r1'') (store ?sx)"
      by blast
    also have "\<dots> = []" by (simp add: session_def reservation_def)
    finally show ?thesis .
  qed
  have b: "store (snd (cancelReservation ?io ?cy ''r1'' ?sy)) = [?r] \<and>
           events (snd (cancelReservation ?io ?cy ''r1'' ?sy)) = [Toast NotYourReservation]"
  proof -
    from cancel_needs_owner [of ?io ?cy "''r1''" ?sy] y
    have "store (snd (cancelReservation ?io ?cy ''r1'' ?sy)) = store ?sy \<and>
          events (snd (cancelReservation ?io ?cy ''r1'' ?sy)) = events ?sy @
            [Toast (case user ?cy of
                  None \<Rightarrow> LoginToCancel
                | Some uid \<Rightarrow>
                    (case find (\<lambda>r. id_r r = ''r1'') (reservations ?cy) of
                       None \<Rightarrow> ReservationNotFound
                     | Some r \<Rightarrow> NotYourReservation))]"
      by blast
    moreover have "store ?sy = [?r]" "events ?sy = []" "user ?cy = Some ''y''"
      "find (\<lambda>r. id_r r = ''r1'') (reservations ?cy) = Some ?r"
      by (simp_all add: session_def view_def reservation_def)
    ultimately show ?thesis by simp
  qed
  show ?thesis using x y a b by blast
qed

text \<open>
  C5 as stated fails: without a user, for an unknown id and for a reservation of
  another user, the caller of \<open>cancelReservation\<close> receives a normal return, the same
  as after a deletion, and no \<open>Unauthenticated\<close>, \<open>NotFound\<close> or \<open>Forbidden\<close>.
\<close>

theorem cancel_rejection_not_raised:
  "fst (cancelReservation (outcome True True True ''n'')
     (view None [reservation ''r1'' ''x'' ''P1'' ''2'' ''A'' ''2024-01-01'']) ''r1''
     (session None [reservation ''r1'' ''x'' ''P1'' ''2'' ''A'' ''2024-01-01''])) = Inr () \<and>
   fst (cancelReservation (outcome True True True ''n'')
     (view None [reservation ''r1'' ''x'' ''P1'' ''2'' ''A'' ''2024-01-01'']) ''r1''
     (session None [reservation ''r1'' ''x'' ''P1'' ''2'' ''A'' ''2024-01-01''])) \<noteq> Inl Unauthenticated \<and>
   fst (cancelReservation (outcome True True True ''n'')
     (view (Some ''x'') [reservation ''r1'' ''x'' ''P1'' ''2'' ''A'' ''2024-01-01'']) ''r7''
     (session (Some ''x'') [reservation ''r1'' ''x'' ''P1'' ''2'' ''A'' ''2024-01-01''])) = Inr () \<and>
   fst (cancelReservation (outcome True True True ''n'')
     (view (Some ''x'') [reservation ''r1'' ''x'' ''P1'' ''2'' ''A'' ''2024-01-01'']) ''r7''
     (session (Some ''x'') [reservation ''r1'' ''x'' ''P1'' ''2'' ''A'' ''2024-01-01''])) \<noteq> Inl NotFound \<and>
   fst (cancelReservation (outcome True True True ''n'')
     (view (Some ''y'') [reservation ''r1'' ''x'' ''P1'' ''2'' ''A'' ''2024-01-01'']) ''r1''
     (session (Some ''y'') [reservation ''r1'' ''x'' ''P1'' ''2'' ''A'' ''2024-01-01''])) = Inr () \<and>
   fst (cancelReservation (outcome True True True ''n'')
     (view (Some ''y'') [reservation ''r1'' ''x'' ''P1'' ''2'' ''A'' ''2024-01-01'']) ''r1''
     (session (Some ''y'') [reservation ''r1'' ''x'' ''P1'' ''2'' ''A'' ''2024-01-01''])) \<noteq> Inl Forbidden \<and>
   fst (cancelReservation (outcome True True True ''n'')
     (view (Some ''x'') [reservation ''r1'' ''x'' ''P1'' ''2'' ''A'' ''2024-01-01'']) ''r1''
     (session (Some ''x'') [reservation ''r1'' ''x'' ''P1'' ''2'' ''A'' ''2024-01-01''])) = Inr ()"
  by (simp add: cancel_fst)

text \<open>
  C6. \<open>createReservation\<close> writes to the store only when a user is signed in, no
  reservation of the view has the requested date and the weekly count is below 2.
  Whenever it fails (\<open>Unauthenticated\<close> without a user, \<open>DateAlreadyReserved\<close>,
  \<open>WeeklyQuotaExceeded\<close>, or a failure of the store), the store and the cached view
  are unchanged. On success the store has one more record: the request's fields,
  status \<open>confirmed\<close>, and \<open>userId\<close> the id of the signed-in user (the request has no
  \<open>userId\<close> field to take it from).
\<close>

theorem create_writes_only_when_admitted:
  "(store (snd (createReservation P io c data s)) \<noteq> store s \<longrightarrow>
      user c \<noteq> None \<and> date data \<notin> date ` set (reservations c) \<and>
      getWeeklyApartmentReservationsCount P (reservations c)
        (portal data) (floor_r data) (door data) (date data) < 2) \<and>
   (fst (createReservation P io c data s) = Inl e \<longrightarrow>
      store (snd (createReservation P io c data s)) = store s \<and>
      latest (snd (createReservation P io c data s)) = latest s) \<and>
   (user c = None \<longrightarrow> fst (createReservation P io c data s) = Inl Unauthenticated) \<and>
   (fst (createReservation P io c data s) = Inr () \<longrightarrow>
      (\<exists>uid r. user c = Some uid \<and>
         store (snd (createReservation P io c data s)) = store s @ [r] \<and>
         status r = Confirmed \<and> userId r = uid \<and>
         portal r = portal data \<and> floor_r r = floor_r data \<and>
         door r = door data \<and> date r = date data))"
proof (cases rule: create_cases [of c P io data s])
  case unauth
  then show ?thesis by simp
next
  case (dup uid)
  then show ?thesis by simp
next
  case (quota uid)
  then show ?thesis by simp
next
  case (fails uid)
  then show ?thesis by simp
next
  case (commits uid)
  have "status (reservationData data uid io) = Confirmed"
    by (cases "status (reservationData data uid io)") simp
  with commits show ?thesis
    by (simp add: loadReservations_snd reservationData_def)
qed

theorem create_writes_example:
  "fst (createReservation utc (outcome True True True ''r2'')
      (view (Some ''x'') [reservation ''r1'' ''y'' ''P3'' ''1'' ''B'' ''2024-01-01''])
      (request ''P1'' ''2'' ''A'' ''2024-01-05'')
      (session (Some ''x'') [reservation ''r1'' ''y'' ''P3'' ''1'' ''B'' ''2024-01-01''])) = Inr () \<and>
   store (snd (createReservation utc (outcome True True True ''r2'')
      (view (Some ''x'') [reservation ''r1'' ''y'' ''P3'' ''1'' ''B'' ''2024-01-01''])
      (request ''P1'' ''2'' ''A'' ''2024-01-05'')
      (session (Some ''x'') [reservation ''r1'' ''y'' ''P3'' ''1'' ''B'' ''2024-01-01''])))
     = [reservation ''r1'' ''y'' ''P3'' ''1'' ''B'' ''2024-01-01'',
        reservation ''r2'' ''x'' ''P1'' ''2'' ''A'' ''2024-01-05''] \<and>
   store (snd (createReservation utc (outcome True True True ''r2'')
      (view (Some ''x'') [reservation ''r1'' ''y'' ''P3'' ''1'' ''B'' ''2024-01-01''])
      (request ''P1'' ''2'' ''A'' ''2024-01-01'')
      (session (Some ''x'') [reservation ''r1'' ''y'' ''P3'' ''1'' ''B'' ''2024-01-01''])))
     = [reservation ''r1'' ''y'' ''P3'' ''1'' ''B'' ''2024-01-01'']"
proof -
  let ?c = "view (Some ''x'') [reservation ''r1'' ''y'' ''P3'' ''1'' ''B'' ''2024-01-01'']"
  let ?s = "session (Some ''x'') [reservation ''r1'' ''y'' ''P3'' ''1'' ''B'' ''2024-01-01'']"
  let ?io = "outcome True True True ''r2''"
  let ?d = "request ''P1'' ''2'' ''A'' ''2024-01-05''"
  let ?d' = "request ''P1'' ''2'' ''A'' ''2024-01-01''"
  have ok: "fst (createReservation utc ?io ?c ?d ?s) = Inr ()" by code_simp
  have st: "store ?s = [reservation ''r1'' ''y'' ''P3'' ''1'' ''B'' ''2024-01-01'']"
    "user ?c = Some ''x''"
    by (simp_all add: session_def view_def)
  have no: "fst (createReservation utc ?io ?c ?d' ?s) = Inl DateAlreadyReserved"
    by code_simp
  from create_writes_only_when_admitted [of utc ?io ?c ?d ?s] ok
  obtain uid r where "user ?c = Some uid"
      "store (snd (createReservation utc ?io ?c ?d ?s)) = store ?s @ [r]"
      "status r = Confirmed" "userId r = uid" "portal r = portal ?d" "floor_r r = floor_r ?d"
      "door r = door ?d" "date r = date ?d" by blast
  moreover have "id_r (last (store (snd (createReservation utc ?io ?c ?d ?s)))) = ''r2''"
    "createdAt (last (store (snd (createReservation utc ?io ?c ?d ?s)))) = 0"
    by code_simp+
  ultimately have a: "store (snd (createReservation utc ?io ?c ?d ?s))
     = [reservation ''r1'' ''y'' ''P3'' ''1'' ''B'' ''2024-01-01'',
        reservation ''r2'' ''x'' ''P1'' ''2'' ''A'' ''2024-01-05'']"
    using st by (cases r) (simp add: reservation_def request_def)
  have b: "store (snd (createReservation utc ?io ?c ?d' ?s)) = store ?s"
    using create_writes_only_when_admitted [of utc ?io ?c ?d' ?s DateAlreadyReserved] no
    by blast
  show ?thesis using ok a b st by simp
qed

text \<open>
  C7, as the code has it. When \<open>addDoc\<close> fails, \<open>createReservation\<close> throws the
  store's error to its caller, after one call of the store and one toast, with
  store and view unchanged; it throws \<open>StoreError\<close> in no other case. When
  \<open>deleteDoc\<close> fails, \<open>cancelReservation\<close> makes no other call of the store, shows the
  toast 'Error al cancelar la reserva', leaves store and view unchanged and returns
  normally: its caller does not receive the failure.
\<close>

theorem store_failure_reports:
  "(user c = Some uid \<and> date data \<notin> date ` set (reservations c) \<and>
    getWeeklyApartmentReservationsCount P (reservations c)
       (portal data) (floor_r data) (door data) (date data) < 2 \<and> \<not> addDoc_ok io \<longrightarrow>
      createReservation P io c data s =
        (Inl StoreError, emit [AddDoc False, Toast (CreateFailed StoreError)] s)) \<and>
   (fst (createReservation P io c data s) = Inl StoreError \<longrightarrow>
      \<not> addDoc_ok io \<and>
      snd (createReservation P io c data s) =
        emit [AddDoc False, Toast (CreateFailed StoreError)] s) \<and>
   (canCancel c i \<and> \<not> deleteDoc_ok io \<longrightarrow>
      cancelReservation io c i s = (Inr (), emit [DeleteDoc i False, Toast CancelFailed] s))"
proof (intro conjI impI)
  assume "user c = Some uid \<and> date data \<notin> date ` set (reservations c) \<and>
    getWeeklyApartmentReservationsCount P (reservations c)
       (portal data) (floor_r data) (door data) (date data) < 2 \<and> \<not> addDoc_ok io"
  then show "createReservation P io c data s =
        (Inl StoreError, emit [AddDoc False, Toast (CreateFailed StoreError)] s)"
    by (simp add: create_store_fails)
next
  assume e: "fst (createReservation P io c data s) = Inl StoreError"
  show "\<not> addDoc_ok io"
    by (cases rule: create_cases [of c P io data s]) (use e in simp_all)
  show "snd (createReservation P io c data s) =
        emit [AddDoc False, Toast (CreateFailed StoreError)] s"
    by (cases rule: create_cases [of c P io data s]) (use e in simp_all)
next
  assume "canCancel c i \<and> \<not> deleteDoc_ok io"
  then show "cancelReservation io c i s = (Inr (), emit [DeleteDoc i False, Toast CancelFailed] s)"
    by (cases rule: cancel_cases [of c i io s]) simp_all
qed

theorem store_failure_example:
  "createReservation utc (outcome True False True ''n'') (view (Some ''x'') [])
     (request ''P1'' ''2'' ''A'' ''2024-01-05'') (session (Some ''x'') [])
     = (Inl StoreError,
        \<lparr>latest = view (Some ''x'') [], store = [],
         events = [AddDoc False, Toast (CreateFailed StoreError)]\<rparr>) \<and>
   cancelReservation (outcome True True False ''n'')
     (view (Some ''x'') [reservation ''r1'' ''x'' ''P1'' ''2'' ''A'' ''2024-01-01'']) ''r1''
     (session (Some ''x'') [reservation ''r1'' ''x'' ''P1'' ''2'' ''A'' ''2024-01-01''])
     = (Inr (),
        \<lparr>latest = view (Some ''x'') [reservation ''r1'' ''x'' ''P1'' ''2'' ''A'' ''2024-01-01''],
         store = [reservation ''r1'' ''x'' ''P1'' ''2'' ''A'' ''2024-01-01''],
         events = [DeleteDoc ''r1'' False, Toast CancelFailed]\<rparr>)"
proof -
  let ?r = "reservation ''r1'' ''x'' ''P1'' ''2'' ''A'' ''2024-01-01''"
  let ?c = "view (Some ''x'') []"
  let ?s = "session (Some ''x'') []"
  let ?d = "request ''P1'' ''2'' ''A'' ''2024-01-05''"
  have h: "user ?c = Some ''x'' \<and> date ?d \<notin> date ` set (reservations ?c) \<and>
    getWeeklyApartmentReservationsCount utc (reservations ?c)
       (portal ?d) (floor_r ?d) (door ?d) (date ?d) < 2 \<and> \<not> addDoc_ok (outcome True False True ''n'')"
    by (simp add: view_def outcome_def getWeeklyApartmentReservationsCount_def)
  have cc: "canCancel (view (Some ''x'') [?r]) ''r1'' \<and> \<not> deleteDoc_ok (outcome True True False ''n'')"
    by (simp add: canCancel_def view_def reservation_def outcome_def)
  have a: "createReservation utc (outcome True False True ''n'') ?c ?d ?s
             = (Inl StoreError, emit [AddDoc False, Toast (CreateFailed StoreError)] ?s)"
    using store_failure_reports [of ?c "''x''" ?d utc "outcome True False True ''n''" ?s] h
    by blast
  have b: "cancelReservation (outcome True True False ''n'') (view (Some ''x'') [?r]) ''r1''
             (session (Some ''x'') [?r])
           = (Inr (), emit [DeleteDoc ''r1'' False, Toast CancelFailed] (session (Some ''x'') [?r]))"
    using store_failure_reports [where c = "view (Some ''x'') [?r]"
        and io = "outcome True True False ''n''" and i = "''r1''"
        and s = "session (Some ''x'') [?r]"] cc
    by blast
  have e1: "emit [AddDoc False, Toast (CreateFailed StoreError)] ?s
      = \<lparr>latest = view (Some ''x'') [], store = [],
         events = [AddDoc False, Toast (CreateFailed StoreError)]\<rparr>"
    by (simp add: emit_def session_def)
  have e2: "emit [DeleteDoc ''r1'' False, Toast CancelFailed] (session (Some ''x'') [?r])
      = \<lparr>latest = view (Some ''x'') [?r], store = [?r],
         events = [DeleteDoc ''r1'' False, Toast CancelFailed]\<rparr>"
    by (simp add: emit_def session_def)
  show ?thesis unfolding a b e1 e2 by simp
qed

text \<open>
  C7 as stated fails for \<open>cancelReservation\<close>: the owner's cancel with a failing
  \<open>deleteDoc\<close> returns normally.
\<close>

theorem cancel_store_failure_not_raised:
  "fst (cancelReservation (outcome True True False ''n'')
     (view (Some ''x'') [reservation ''r1'' ''x'' ''P1'' ''2'' ''A'' ''2024-01-01'']) ''r1''
     (session (Some ''x'') [reservation ''r1'' ''x'' ''P1'' ''2'' ''A'' ''2024-01-01''])) = Inr () \<and>
   fst (cancelReservation (outcome True True False ''n'')
     (view (Some ''x'') [reservation ''r1'' ''x'' ''P1'' ''2'' ''A'' ''2024-01-01'']) ''r1''
     (session (Some ''x'') [reservation ''r1'' ''x'' ''P1'' ''2'' ''A'' ''2024-01-01''])) \<noteq> Inl StoreError \<and>
   events (snd (cancelReservation (outcome True True False ''n'')
     (view (Some ''x'') [reservation ''r1'' ''x'' ''P1'' ''2'' ''A'' ''2024-01-01'']) ''r1''
     (session (Some ''x'') [reservation ''r1'' ''x'' ''P1'' ''2'' ''A'' ''2024-01-01''])))
     = [DeleteDoc ''r1'' False, Toast CancelFailed]"
  by code_simp

text \<open>
  C8, as the code has it. When \<open>getDocs\<close> fails, \<open>loadReservations\<close> leaves the cached
  view (and the store) as they were, shows the toast 'Error al cargar las reservas'
  and returns normally; the caller that asked for the refresh does not receive the
  failure. So the view is also unchanged after a \<open>createReservation\<close> or a
  \<open>cancelReservation\<close> whose refresh fails. When \<open>getDocs\<close> succeeds the view is
  replaced by the store's contents.
\<close>

theorem refresh_failure_keeps_view:
  "(\<not> getDocs_ok io \<longrightarrow>
      loadReservations io s = (Inr (), emit [GetDocs False, Toast LoadFailed] s) \<and>
      latest (snd (loadReservations io s)) = latest s \<and>
      store (snd (loadReservations io s)) = store s) \<and>
   (getDocs_ok io \<longrightarrow>
      loadReservations io s = (Inr (), emit [GetDocs True] (setReservations (store s) s))) \<and>
   (\<not> getDocs_ok io \<longrightarrow> latest (snd (createReservation P io c data s)) = latest s) \<and>
   (\<not> getDocs_ok io \<longrightarrow> latest (snd (cancelReservation io c i s)) = latest s)"
proof -
  have a: "\<not> getDocs_ok io \<Longrightarrow> latest (snd (createReservation P io c data s)) = latest s"
    by (cases rule: create_cases [of c P io data s]) (simp_all add: loadReservations_snd)
  have b: "\<not> getDocs_ok io \<Longrightarrow> latest (snd (cancelReservation io c i s)) = latest s"
    by (cases rule: cancel_cases [of c i io s]) (simp_all add: loadReservations_snd)
  show ?thesis using a b by (simp add: loadReservations_def)
qed

theorem refresh_failure_example:
  "loadReservations (outcome False True True ''n'')
     \<lparr>latest = view (Some ''x'') [],
      store = [reservation ''r1'' ''x'' ''P1'' ''2'' ''A'' ''2024-01-01''], events = []\<rparr>
   = (Inr (),
      \<lparr>latest = view (Some ''x'') [],
       store = [reservation ''r1'' ''x'' ''P1'' ''2'' ''A'' ''2024-01-01''],
       events = [GetDocs False, Toast LoadFailed]\<rparr>)"
proof -
  let ?s = "\<lparr>latest = view (Some ''x'') [],
      store = [reservation ''r1'' ''x'' ''P1'' ''2'' ''A'' ''2024-01-01''], events = []\<rparr>"
  have "\<not> getDocs_ok (outcome False True True ''n'')" by (simp add: outcome_def)
  with refresh_failure_keeps_view [of "outcome False True True ''n''" ?s]
  have "loadReservations (outcome False True True ''n'') ?s
          = (Inr (), emit [GetDocs False, Toast LoadFailed] ?s)" by blast
  then show ?thesis by (simp add: emit_def)
qed

text \<open>
  C8 as stated fails: a refresh whose listing fails returns normally, and a create
  whose refresh fails returns normally too.
\<close>

theorem refresh_failure_not_propagated:
  "fst (loadReservations (outcome False True True ''n'') (session (Some ''x'') [])) = Inr () \<and>
   fst (loadReservations (outcome False True True ''n'') (session (Some ''x'') [])) \<noteq> Inl StoreError \<and>
   fst (createReservation utc (outcome False True True ''r1'') (view (Some ''x'') [])
          (request ''P1'' ''2'' ''A'' ''2024-02-10'') (session (Some ''x'') [])) = Inr () \<and>
   events (snd (createReservation utc (outcome False True True ''r1'') (view (Some ''x'') [])
          (request ''P1'' ''2'' ''A'' ''2024-02-10'') (session (Some ''x'') [])))
     = [AddDoc True, GetDocs False, Toast LoadFailed]"
  by code_simp

text \<open>
  C9. The weekly count and the decision of \<open>createReservation\<close> do not change when
  the door argument and the door fields of the reservations are replaced by strings
  equal to them up to letter case (strings with the same upper-case form). Portal
  and floor are compared exactly: a reservation whose portal or floor differs from
  the argument is not counted, also when the two differ in letter case only, as for
  a reservation of portal \<open>P1\<close>, floor \<open>b\<close> and the arguments \<open>p1\<close> or \<open>B\<close>.
\<close>

theorem door_case_is_ignored:
  assumes "sameUpToCase P d d'"
    and "list_all2 (\<lambda>r r'. sameUpToCase P (door r) (door r') \<and> r' = r\<lparr>door := door r'\<rparr>) rs rs'"
  shows "getWeeklyApartmentReservationsCount P rs' p f d' dt =
         getWeeklyApartmentReservationsCount P rs p f d dt \<and>
         fst (createReservation P io (c\<lparr>reservations := rs'\<rparr>) (data\<lparr>door := d'\<rparr>) s) =
         fst (createReservation P io (c\<lparr>reservations := rs\<rparr>) (data\<lparr>door := d\<rparr>) s) \<and>
         (portal r \<noteq> p \<or> floor_r r \<noteq> f \<longrightarrow>
            getWeeklyApartmentReservationsCount P [r] p f d dt = 0) \<and>
         toUpperCase utc ''p1'' = toUpperCase utc ''P1'' \<and>
         toUpperCase utc ''B'' = toUpperCase utc ''b'' \<and>
         getWeeklyApartmentReservationsCount utc
           [reservation ''r1'' ''u'' ''P1'' ''b'' ''A'' ''2024-01-01''] ''p1'' ''b'' ''A'' ''2024-01-01''
           \<noteq> getWeeklyApartmentReservationsCount utc
           [reservation ''r1'' ''u'' ''P1'' ''b'' ''A'' ''2024-01-01''] ''P1'' ''b'' ''A'' ''2024-01-01'' \<and>
         getWeeklyApartmentReservationsCount utc
           [reservation ''r1'' ''u'' ''P1'' ''b'' ''A'' ''2024-01-01''] ''P1'' ''B'' ''A'' ''2024-01-01''
           \<noteq> getWeeklyApartmentReservationsCount utc
           [reservation ''r1'' ''u'' ''P1'' ''b'' ''A'' ''2024-01-01''] ''P1'' ''b'' ''A'' ''2024-01-01''"
proof -
  have dd: "toUpperCase P d' = toUpperCase P d"
    using assms(1) by (simp add: sameUpToCase_def)
  have rel: "list_all2 (\<lambda>r' r. matches P p f d' dt r' = matches P p f d dt r) rs' rs"
    for p f dt
    unfolding list_all2_conv_all_nth
  proof (intro conjI allI impI)
    show "length rs' = length rs" using assms(2) by (simp add: list_all2_lengthD)
  next
    fix i assume "i < length rs'"
    then have i: "i < length rs" using assms(2) by (simp add: list_all2_lengthD)
    from assms(2) i have e: "sameUpToCase P (door (rs ! i)) (door (rs' ! i))"
      and r: "rs' ! i = (rs ! i)\<lparr>door := door (rs' ! i)\<rparr>"
      by (simp_all add: list_all2_conv_all_nth)
    from e have u: "toUpperCase P (door (rs' ! i)) = toUpperCase P (door (rs ! i))"
      by (simp add: sameUpToCase_def)
    have f: "date (rs' ! i) = date (rs ! i)" "portal (rs' ! i) = portal (rs ! i)"
      "floor_r (rs' ! i) = floor_r (rs ! i)"
      by (subst r, simp)+
    show "matches P p f d' dt (rs' ! i) = matches P p f d dt (rs ! i)"
      by (simp add: matches_def u f dd)
  qed
  have cnt: "getWeeklyApartmentReservationsCount P rs' p f d' dt =
             getWeeklyApartmentReservationsCount P rs p f d dt" for p f dt
    unfolding count_matches by (rule length_filter_rel [OF rel])
  have "map date rs' = map date rs"
    using assms(2)
  proof (induction rule: list_all2_induct)
    case Nil
    show ?case by simp
  next
    case (Cons r rs r' rs')
    from Cons.hyps(1) have "r' = r\<lparr>door := door r'\<rparr>" by simp
    from arg_cong [OF this, of date] have "date r' = date r" by simp
    with Cons.IH show ?case by simp
  qed
  then have "set (map date rs') = set (map date rs)" by simp
  then have dates: "date ` set rs' = date ` set rs" by simp
  have dec: "fst (createReservation P io (c\<lparr>reservations := rs'\<rparr>) (data\<lparr>door := d'\<rparr>) s) =
         fst (createReservation P io (c\<lparr>reservations := rs\<rparr>) (data\<lparr>door := d\<rparr>) s)"
    unfolding createReservation_def
    by (simp add: find_date_iff dates cnt Let_def split: option.splits)
  have ex0: "getWeeklyApartmentReservationsCount P [r] p f d dt = 0"
    if "portal r \<noteq> p \<or> floor_r r \<noteq> f"
    using that by (auto simp: count_matches matches_def)
  have ex: "getWeeklyApartmentReservationsCount utc
           [reservation ''r1'' ''u'' ''P1'' ''b'' ''A'' ''2024-01-01''] ''p1'' ''b'' ''A'' ''2024-01-01'' = 0"
     "getWeeklyApartmentReservationsCount utc
           [reservation ''r1'' ''u'' ''P1'' ''b'' ''A'' ''2024-01-01''] ''P1'' ''B'' ''A'' ''2024-01-01'' = 0"
     "getWeeklyApartmentReservationsCount utc
           [reservation ''r1'' ''u'' ''P1'' ''b'' ''A'' ''2024-01-01''] ''P1'' ''b'' ''A'' ''2024-01-01'' = 1"
     "toUpperCase utc ''p1'' = toUpperCase utc ''P1''"
     "toUpperCase utc ''B'' = toUpperCase utc ''b''"
    by code_simp+
  show ?thesis using cnt dec ex ex0 by simp
qed

theorem door_case_example:
  "sameUpToCase utc ''A'' ''a'' \<and>
   getWeeklyApartmentReservationsCount utc
     [reservation ''r1'' ''u'' ''P1'' ''2'' ''A'' ''2024-01-01'',
      reservation ''r2'' ''u'' ''P1'' ''2'' ''a'' ''2024-01-03''] ''P1'' ''2'' ''a'' ''2024-01-05'' = 2 \<and>
   getWeeklyApartmentReservationsCount utc
     [reservation ''r1'' ''u'' ''P1'' ''2'' ''a'' ''2024-01-01'',
      reservation ''r2'' ''u'' ''P1'' ''2'' ''a'' ''2024-01-03''] ''P1'' ''2'' ''A'' ''2024-01-05'' = 2 \<and>
   fst (createReservation utc (outcome True True True ''r3'')
         (view (Some ''x'')
            [reservation ''r1'' ''u'' ''P1'' ''2'' ''A'' ''2024-01-01'',
             reservation ''r2'' ''u'' ''P1'' ''2'' ''A'' ''2024-01-03''])
         (request ''P1'' ''2'' ''a'' ''2024-01-05'')
         (session (Some ''x'') [])) = Inl WeeklyQuotaExceeded"
proof -
  let ?rs = "[reservation ''r1'' ''u'' ''P1'' ''2'' ''A'' ''2024-01-01'',
      reservation ''r2'' ''u'' ''P1'' ''2'' ''a'' ''2024-01-03'']"
  let ?rs' = "[reservation ''r1'' ''u'' ''P1'' ''2'' ''a'' ''2024-01-01'',
      reservation ''r2'' ''u'' ''P1'' ''2'' ''a'' ''2024-01-03'']"
  let ?rs2 = "[reservation ''r1'' ''u'' ''P1'' ''2'' ''A'' ''2024-01-01'',
             reservation ''r2'' ''u'' ''P1'' ''2'' ''A'' ''2024-01-03'']"
  let ?c = "view (Some ''x'') ?rs2"
  let ?s = "session (Some ''x'') []"
  let ?io = "outcome True True True ''r3''"
  have e: "sameUpToCase utc ''A'' ''a''" "sameUpToCase utc ''a'' ''A''"
          "sameUpToCase utc ''a'' ''a''" "sameUpToCase utc ''A'' ''A''"
    by code_simp+
  have v: "list_all2 (\<lambda>r r'. sameUpToCase utc (door r) (door r') \<and> r' = r\<lparr>door := door r'\<rparr>) ?rs ?rs'"
    using e by (simp add: reservation_def)
  have v0: "list_all2 (\<lambda>r r'. sameUpToCase utc (door r) (door r') \<and> r' = r\<lparr>door := door r'\<rparr>) ?rs ?rs"
    using e by (simp add: reservation_def)
  have v2: "list_all2 (\<lambda>r r'. sameUpToCase utc (door r) (door r') \<and> r' = r\<lparr>door := door r'\<rparr>) ?rs2 ?rs2"
    using e by (simp add: reservation_def)
  have cnt: "getWeeklyApartmentReservationsCount utc ?rs ''P1'' ''2'' ''A'' ''2024-01-05'' = 2"
    by code_simp
  have q: "fst (createReservation utc ?io ?c (request ''P1'' ''2'' ''A'' ''2024-01-05'') ?s)
             = Inl WeeklyQuotaExceeded"
    by code_simp
  have s: "?c\<lparr>reservations := ?rs2\<rparr> = ?c" by (simp add: view_def)
  have r: "(request ''P1'' ''2'' ''A'' ''2024-01-05'')\<lparr>door := ''a''\<rparr> = request ''P1'' ''2'' ''a'' ''2024-01-05''"
    "(request ''P1'' ''2'' ''A'' ''2024-01-05'')\<lparr>door := ''A''\<rparr> = request ''P1'' ''2'' ''A'' ''2024-01-05''"
    by (simp_all add: request_def)
  from door_case_is_ignored [OF e(1) v0, THEN conjunct1, of "''P1''" "''2''" "''2024-01-05''"] cnt
  have a1: "getWeeklyApartmentReservationsCount utc ?rs ''P1'' ''2'' ''a'' ''2024-01-05'' = 2"
    by simp
  from door_case_is_ignored [OF e(2) v, THEN conjunct1, of "''P1''" "''2''" "''2024-01-05''"] a1
  have a2: "getWeeklyApartmentReservationsCount utc ?rs' ''P1'' ''2'' ''A'' ''2024-01-05'' = 2"
    by simp
  from door_case_is_ignored [OF e(1) v2, THEN conjunct2, THEN conjunct1, of ?io ?c
       "request ''P1'' ''2'' ''A'' ''2024-01-05''" ?s] q
  have a3: "fst (createReservation utc ?io ?c (request ''P1'' ''2'' ''a'' ''2024-01-05'') ?s)
             = Inl WeeklyQuotaExceeded"
    unfolding s r by simp
  show ?thesis using e(1) a1 a2 a3 by blast
qed

text \<open>
  C10. The uniqueness check of \<open>createReservation\<close> compares the \<open>date\<close> fields as
  strings: for a signed-in user the result is \<open>DateAlreadyReserved\<close> exactly when a
  reservation of the view has the same date string, whatever \<open>parseISO\<close> makes of
  the strings, so two strings that differ are never taken for the same date. The
  weekly count parses the date strings and compares the parsed dates: it counts the
  reservations whose date parses, to a date in the week of the parsed target date,
  and so gives the same count for target strings that parse to the same date. In
  the example \<open>20240101\<close> and \<open>2024-01-01\<close> parse to the same day, a reservation of
  another week and one whose date does not parse are not counted.
\<close>

theorem uniqueness_is_textual:
  assumes "user c = Some uid"
  shows "(fst (createReservation P io c data s) = Inl DateAlreadyReserved) =
           (\<exists>r \<in> set (reservations c). date r = date data) \<and>
         ((\<forall>r \<in> set (reservations c). date r \<noteq> date data) \<longrightarrow>
            fst (createReservation P io c data s) \<noteq> Inl DateAlreadyReserved) \<and>
         getWeeklyApartmentReservationsCount P rs p f d dt =
           length (filter (\<lambda>r.
             (case parsed P (date r) of
                None \<Rightarrow> False
              | Some t \<Rightarrow>
                  (case parsed P dt of
                     None \<Rightarrow> False
                   | Some t0 \<Rightarrow> weekIndex (tzOffset P) t = weekIndex (tzOffset P) t0 \<and>
                               weekInRange (tzOffset P) (Some t0))) \<and>
             portal r = p \<and> floor_r r = f \<and> toUpperCase P (door r) = toUpperCase P d) rs) \<and>
         (parsed P dt = parsed P dt' \<longrightarrow>
            getWeeklyApartmentReservationsCount P rs p f d dt =
            getWeeklyApartmentReservationsCount P rs p f d dt')"
proof -
  have a: "(fst (createReservation P io c data s) = Inl DateAlreadyReserved) =
           (\<exists>r \<in> set (reservations c). date r = date data)"
  proof (cases rule: create_cases [of c P io data s])
    case unauth
    with assms show ?thesis by simp
  next
    case (dup uid)
    then show ?thesis by (auto simp: image_iff)
  next
    case (quota uid)
    then show ?thesis by (auto simp: image_iff)
  next
    case (fails uid)
    then show ?thesis by (auto simp: image_iff)
  next
    case (commits uid)
    then show ?thesis by (auto simp: image_iff)
  qed
  have m: "matches P p f d dt r =
             ((case parsed P (date r) of
                None \<Rightarrow> False
              | Some t \<Rightarrow>
                  (case parsed P dt of
                     None \<Rightarrow> False
                   | Some t0 \<Rightarrow> weekIndex (tzOffset P) t = weekIndex (tzOffset P) t0 \<and>
                               weekInRange (tzOffset P) (Some t0))) \<and>
             portal r = p \<and> floor_r r = f \<and> toUpperCase P (door r) = toUpperCase P d)" for r
    by (auto simp: matches_def sameWeek_def weekInRange_def split: option.splits)
  have b: "getWeeklyApartmentReservationsCount P rs p f d dt =
           length (filter (\<lambda>r.
             (case parsed P (date r) of
                None \<Rightarrow> False
              | Some t \<Rightarrow>
                  (case parsed P dt of
                     None \<Rightarrow> False
                   | Some t0 \<Rightarrow> weekIndex (tzOffset P) t = weekIndex (tzOffset P) t0 \<and>
                               weekInRange (tzOffset P) (Some t0))) \<and>
             portal r = p \<and> floor_r r = f \<and> toUpperCase P (door r) = toUpperCase P d) rs)"
    unfolding count_matches by (rule arg_cong [where f = length], rule filter_cong [OF refl], rule m)
  have e: "parsed P dt = parsed P dt' \<Longrightarrow>
            getWeeklyApartmentReservationsCount P rs p f d dt =
            getWeeklyApartmentReservationsCount P rs p f d dt'"
    by (simp add: getWeeklyApartmentReservationsCount_def)
  show ?thesis using a b e by blast
qed

theorem uniqueness_is_textual_example:
  "user (view (Some ''x'')
      [reservation ''r1'' ''y'' ''P1'' ''2'' ''A'' ''2024-01-01'',
       reservation ''r2'' ''y'' ''P1'' ''2'' ''A'' ''2024-01-02'',
       reservation ''r3'' ''y'' ''P1'' ''2'' ''A'' ''2024-01-09'',
       reservation ''r4'' ''y'' ''P1'' ''2'' ''A'' ''soon'']) = Some ''x'' \<and>
   parsed utc ''20240101'' = parsed utc ''2024-01-01'' \<and>
   fst (createReservation utc (outcome True True True ''r5'')
      (view (Some ''x'')
        [reservation ''r1'' ''y'' ''P1'' ''2'' ''A'' ''2024-01-01'',
         reservation ''r2'' ''y'' ''P1'' ''2'' ''A'' ''2024-01-02'',
         reservation ''r3'' ''y'' ''P1'' ''2'' ''A'' ''2024-01-09'',
         reservation ''r4'' ''y'' ''P1'' ''2'' ''A'' ''soon''])
      (request ''P7'' ''1'' ''C'' ''20240101'')
      (session (Some ''x'') [])) \<noteq> Inl DateAlreadyReserved \<and>
   fst (createReservation utc (outcome True True True ''r5'')
      (view (Some ''x'')
        [reservation ''r1'' ''y'' ''P1'' ''2'' ''A'' ''2024-01-01'',
         reservation ''r2'' ''y'' ''P1'' ''2'' ''A'' ''2024-01-02'',
         reservation ''r3'' ''y'' ''P1'' ''2'' ''A'' ''2024-01-09'',
         reservation ''r4'' ''y'' ''P1'' ''2'' ''A'' ''soon''])
      (request ''P7'' ''1'' ''C'' ''2024-01-01'')
      (session (Some ''x'') [])) = Inl DateAlreadyReserved \<and>
   getWeeklyApartmentReservationsCount utc
        [reservation ''r1'' ''y'' ''P1'' ''2'' ''A'' ''2024-01-01'',
         reservation ''r2'' ''y'' ''P1'' ''2'' ''A'' ''2024-01-02'',
         reservation ''r3'' ''y'' ''P1'' ''2'' ''A'' ''2024-01-09'',
         reservation ''r4'' ''y'' ''P1'' ''2'' ''A'' ''soon'']
        ''P1'' ''2'' ''A'' ''20240101'' = 2"
proof -
  let ?rs = "[reservation ''r1'' ''y'' ''P1'' ''2'' ''A'' ''2024-01-01'',
       reservation ''r2'' ''y'' ''P1'' ''2'' ''A'' ''2024-01-02'',
       reservation ''r3'' ''y'' ''P1'' ''2'' ''A'' ''2024-01-09'',
       reservation ''r4'' ''y'' ''P1'' ''2'' ''A'' ''soon'']"
  let ?c = "view (Some ''x'') ?rs"
  let ?s = "session (Some ''x'') []"
  let ?io = "outcome True True True ''r5''"
  have u: "user ?c = Some ''x''" by (simp add: view_def)
  have p: "parsed utc ''20240101'' = parsed utc ''2024-01-01''" by code_simp
  have n: "\<forall>r \<in> set (reservations ?c). date r \<noteq> date (request ''P7'' ''1'' ''C'' ''20240101'')"
    by (simp add: view_def reservation_def request_def)
  have y: "\<exists>r \<in> set (reservations ?c). date r = date (request ''P7'' ''1'' ''C'' ''2024-01-01'')"
    by (simp add: view_def reservation_def request_def)
  have cnt: "getWeeklyApartmentReservationsCount utc ?rs ''P1'' ''2'' ''A'' ''2024-01-01'' = 2"
    by code_simp
  note t1 = uniqueness_is_textual [OF u, of utc ?io
      "request ''P7'' ''1'' ''C'' ''20240101''" ?s ?rs "''P1''" "''2''" "''A''"
      "''20240101''" "''2024-01-01''"]
  note t2 = uniqueness_is_textual [OF u, of utc ?io
      "request ''P7'' ''1'' ''C'' ''2024-01-01''" ?s, THEN conjunct1]
  from t1 n have a1: "fst (createReservation utc ?io ?c
      (request ''P7'' ''1'' ''C'' ''20240101'') ?s) \<noteq> Inl DateAlreadyReserved" by blast
  from t2 y have a2: "fst (createReservation utc ?io ?c
      (request ''P7'' ''1'' ''C'' ''2024-01-01'') ?s) = Inl DateAlreadyReserved" by blast
  from t1 p have "getWeeklyApartmentReservationsCount utc ?rs ''P1'' ''2'' ''A'' ''20240101'' =
      getWeeklyApartmentReservationsCount utc ?rs ''P1'' ''2'' ''A'' ''2024-01-01''" by blast
  with cnt have a3: "getWeeklyApartmentReservationsCount utc ?rs ''P1'' ''2'' ''A'' ''20240101'' = 2"
    by simp
  show ?thesis using u p a1 a2 a3 by blast
qed

end
